theory Spec2Isabelle
  imports Main
begin

section \<open>Strings and scalars\<close>

text \<open>
  JavaScript template literals turn numbers into decimal text. Only integer-valued
  numbers are modelled (line and column numbers, suffix counters, integer literals).
\<close>

fun string_of_nat :: "nat \<Rightarrow> string" where
  "string_of_nat n =
     (if n < 10 then [''0123456789'' ! n]
      else string_of_nat (n div 10) @ [''0123456789'' ! (n mod 10)])"

declare string_of_nat.simps [simp del]

definition string_of_int :: "int \<Rightarrow> string" where
  "string_of_int i = (if i < 0 then ''-'' @ string_of_nat (nat (- i)) else string_of_nat (nat i))"

fun join :: "string \<Rightarrow> string list \<Rightarrow> string" where
  "join sep [] = []"
| "join sep [x] = x"
| "join sep (x # y # ys) = x @ sep @ join sep (y # ys)"

text \<open>The value of a source literal: a string, an (integer) number, a boolean or null.\<close>

datatype literal = LString string | LNumber int | LBoolean bool | LNull

section \<open>The target syntax tree (vtl-ast)\<close>

text \<open>
  One constructor per node class. \<open>IfDirectiveNode\<close> carries its \<open>isElseIf\<close> flag
  and \<open>PropertyReferenceNode\<close> its \<open>isReferenceRoot\<close> flag as first argument; the
  precedence of a \<open>BinaryExpressionNode\<close> is a function of its operator. \<open>NullNode\<close>
  and \<open>UndefinedNode\<close> stand for JavaScript \<open>null\<close> and \<open>undefined\<close> in a slot that
  holds a node (an absent alternate, the initial \<open>lastChild\<close>, an out-of-range array read).

  Modelled from the spec: \<open>ArrayListNode\<close>, \<open>MapNode\<close> and the two-argument
  \<open>VariableReferenceNode\<close> (identifier and symbol) are used by the transform but are not in
  the available vtl-ast source; the variable reference renders the sigil followed by the
  target name of its symbol, an array list renders its elements in brackets, a map renders
  quoted keys. The transform passes the arguments of a method call as one array, which the
  available constructor of \<open>MethodReferenceNode\<close> would collect as a single rest
  parameter; the model holds the argument list itself and joins it with a comma and a
  space, as the specification and the repository's tests have it.
\<close>

datatype vtl =
    ArrayListNode "vtl list"
  | BinaryExpressionNode string vtl vtl
  | ForEachDirectiveNode vtl vtl vtl
  | IdentifierNode string
  | IfDirectiveNode bool vtl vtl vtl
  | LiteralNode literal
  | MapNode "(vtl \<times> vtl) list"
  | MethodReferenceNode vtl "vtl list"
  | PropertyReferenceNode bool vtl vtl
  | SetDirectiveNode vtl vtl
  | StatementListNode "vtl list"
  | UnaryExpressionNode string vtl bool
  | VariableReferenceNode vtl string
  | NullNode
  | UndefinedNode

datatype error = Error string | TypeError | RangeError

definition operatorPrecedence :: "string \<rightharpoonup> nat" where
  "operatorPrecedence = [''+'' \<mapsto> 1, ''-'' \<mapsto> 1, ''*'' \<mapsto> 2, ''/'' \<mapsto> 2]"

text \<open>The \<open>precedence\<close> property read off any node: only binary expressions have one.\<close>

fun precedence :: "vtl \<Rightarrow> nat option" where
  "precedence (BinaryExpressionNode operator left right) = operatorPrecedence operator"
| "precedence _ = None"

text \<open>
  \<open>operand.precedence && operand.precedence < this.precedence\<close>: an undefined or zero
  operand precedence is falsy, and a comparison with \<open>undefined\<close> is false.
\<close>

definition lower_precedence :: "nat option \<Rightarrow> nat option \<Rightarrow> bool" where
  "lower_precedence operand parent =
     (case operand of
        None \<Rightarrow> False
      | Some p \<Rightarrow> p \<noteq> 0 \<and> (case parent of None \<Rightarrow> False | Some q \<Rightarrow> p < q))"

text \<open>The text of a map key: always quoted, however the key was written.\<close>

fun key_text :: "vtl \<Rightarrow> string \<Rightarrow> string" where
  "key_text (IdentifierNode name) rendered = name"
| "key_text (LiteralNode (LString s)) rendered = s"
| "key_text _ rendered = rendered"

text \<open>
  A node slot inside a template literal, \<open>`${this.slot}`\<close>: \<open>null\<close> and \<open>undefined\<close>
  become the words \<open>null\<close> and \<open>undefined\<close>; for a node object the template literal
  calls its \<open>toString\<close>, whose result (the text, or the error thrown) is the second
  argument.
\<close>

definition interpolate :: "vtl \<Rightarrow> error + string \<Rightarrow> error + string" where
  "interpolate node rendered =
     (if node = NullNode then Inr ''null''
      else if node = UndefinedNode then Inr ''undefined''
      else rendered)"

text \<open>
  An element under \<open>Array.prototype.join\<close>: \<open>null\<close> and \<open>undefined\<close> become the empty
  string, a node object is converted by its \<open>toString\<close>.
\<close>

definition join_element :: "vtl \<Rightarrow> error + string \<Rightarrow> error + string" where
  "join_element node rendered =
     (if node = NullNode \<or> node = UndefinedNode then Inr [] else rendered)"

text \<open>Conversions made one after the other: the first one that throws ends them.\<close>

fun sequence :: "(error + 'a) list \<Rightarrow> error + 'a list" where
  "sequence [] = Inr []"
| "sequence (x # xs) =
     (case x of
        Inl e \<Rightarrow> Inl e
      | Inr v \<Rightarrow> (case sequence xs of Inl e \<Rightarrow> Inl e | Inr vs \<Rightarrow> Inr (v # vs)))"

text \<open>
  The method call \<open>node.toString()\<close>: the text, or the error thrown. On \<open>null\<close> and
  \<open>undefined\<close> the call is a \<open>TypeError\<close>; this is how a binary expression converts
  its operands (\<open>this.left.toString()\<close>, \<open>this.right.toString()\<close>), before it looks at
  their precedence. The other classes put their slots into a template literal or join
  them. The three classes without a \<open>toString\<close> of their own (for-each, if, statement
  list) fall back to the one of \<open>Object\<close>.
\<close>

fun toString :: "vtl \<Rightarrow> error + string" where
  "toString (ArrayListNode elements) =
     (case sequence (map (\<lambda>x. join_element x (toString x)) elements) of
        Inl e \<Rightarrow> Inl e
      | Inr items \<Rightarrow> Inr (''['' @ join '', '' items @ '']''))"
| "toString (BinaryExpressionNode operator left right) =
     (case toString left of
        Inl e \<Rightarrow> Inl e
      | Inr lhs \<Rightarrow>
         (case toString right of
            Inl e \<Rightarrow> Inl e
          | Inr rhs \<Rightarrow>
             Inr ((if lower_precedence (precedence left) (operatorPrecedence operator)
                   then ''('' @ lhs @ '')'' else lhs)
                  @ '' '' @ operator @ '' '' @
                  (if lower_precedence (precedence right) (operatorPrecedence operator)
                   then ''('' @ rhs @ '')'' else rhs))))"
| "toString (ForEachDirectiveNode iterator iterable body) = Inr ''[object Object]''"
| "toString (IdentifierNode name) = Inr name"
| "toString (IfDirectiveNode isElseIf test consequent alternate) = Inr ''[object Object]''"
| "toString (LiteralNode (LString s)) = Inr ([CHR 0x27] @ s @ [CHR 0x27])"
| "toString (LiteralNode (LNumber i)) = Inr (string_of_int i)"
| "toString (LiteralNode (LBoolean b)) = Inr (if b then ''true'' else ''false'')"
| "toString (LiteralNode LNull) = Inr ''null''"
| "toString (MapNode entries) =
     (case sequence
             (map (\<lambda>kv. case interpolate (fst kv) (toString (fst kv)) of
                           Inl e \<Rightarrow> Inl e
                         | Inr k \<Rightarrow>
                            (case interpolate (snd kv) (toString (snd kv)) of
                               Inl e \<Rightarrow> Inl e
                             | Inr v \<Rightarrow>
                                Inr ([CHR 0x27] @ key_text (fst kv) k @ [CHR 0x27]
                                     @ '': '' @ v)))
                  entries) of
        Inl e \<Rightarrow> Inl e
      | Inr items \<Rightarrow> Inr (''{'' @ join '', '' items @ ''}''))"
| "toString (MethodReferenceNode property parameters) =
     (case sequence (map (\<lambda>x. join_element x (toString x)) parameters) of
        Inl e \<Rightarrow> Inl e
      | Inr args \<Rightarrow>
         (case interpolate property (toString property) of
            Inl e \<Rightarrow> Inl e
          | Inr p \<Rightarrow> Inr (p @ ''('' @ join '', '' args @ '')'')))"
| "toString (PropertyReferenceNode isReferenceRoot receiver property) =
     (case interpolate receiver (toString receiver) of
        Inl e \<Rightarrow> Inl e
      | Inr r \<Rightarrow>
         (case interpolate property (toString property) of
            Inl e \<Rightarrow> Inl e
          | Inr p \<Rightarrow> Inr ((if isReferenceRoot then ''$'' else []) @ r @ ''.'' @ p)))"
| "toString (SetDirectiveNode reference expression) =
     (case interpolate reference (toString reference) of
        Inl e \<Rightarrow> Inl e
      | Inr r \<Rightarrow>
         (case interpolate expression (toString expression) of
            Inl e \<Rightarrow> Inl e
          | Inr x \<Rightarrow> Inr (''#set( '' @ r @ '' = '' @ x @ '' )'')))"
| "toString (StatementListNode statements) = Inr ''[object Object]''"
| "toString (UnaryExpressionNode operator argument prefix) =
     (case interpolate argument (toString argument) of
        Inl e \<Rightarrow> Inl e
      | Inr a \<Rightarrow>
         Inr (operator @ (if operator = ''!'' \<or> operator = ''-'' then [] else '' '') @ a))"
| "toString (VariableReferenceNode identifier symbol) = Inr (''$'' @ symbol)"
| "toString NullNode = Inl TypeError"
| "toString UndefinedNode = Inl TypeError"

section \<open>Node constructors that set flags on their arguments\<close>

text \<open>
  Assigning \<open>isReferenceRoot = false\<close> to an object: a property reference loses its root
  flag; on any other object the assignment adds a property that nothing reads.
\<close>

fun clearReferenceRoot :: "vtl \<Rightarrow> vtl" where
  "clearReferenceRoot (PropertyReferenceNode isReferenceRoot receiver property) =
     PropertyReferenceNode False receiver property"
| "clearReferenceRoot node = node"

text \<open>
  The constructor of \<open>PropertyReferenceNode\<close>. The new node is a reference root; a
  receiver that is a property reference is cleared, and for a receiver that is a method
  reference the property of that method reference is cleared (a \<open>TypeError\<close> when that
  property is \<open>null\<close> or \<open>undefined\<close>). The transform always uses a fresh receiver, so
  the update of the receiver object is the update of the subtree.
\<close>

fun new_PropertyReferenceNode :: "vtl \<Rightarrow> vtl \<Rightarrow> error + vtl" where
  "new_PropertyReferenceNode (PropertyReferenceNode r rr rp) property =
     Inr (PropertyReferenceNode True (PropertyReferenceNode False rr rp) property)"
| "new_PropertyReferenceNode (MethodReferenceNode mp parameters) property =
     (if mp = NullNode \<or> mp = UndefinedNode then Inl TypeError
      else Inr (PropertyReferenceNode True
                  (MethodReferenceNode (clearReferenceRoot mp) parameters) property))"
| "new_PropertyReferenceNode receiver property =
     Inr (PropertyReferenceNode True receiver property)"

text \<open>
  The constructor of \<open>IfDirectiveNode\<close>: the new node is an \<open>#if\<close>; an alternate that is
  itself an if directive is marked as \<open>#elseif\<close>.
\<close>

fun markElseIf :: "vtl \<Rightarrow> vtl" where
  "markElseIf (IfDirectiveNode isElseIf test consequent alternate) =
     IfDirectiveNode True test consequent alternate"
| "markElseIf node = node"

definition new_IfDirectiveNode :: "vtl \<Rightarrow> vtl \<Rightarrow> vtl \<Rightarrow> vtl" where
  "new_IfDirectiveNode test consequent alternate =
     IfDirectiveNode False test consequent (markElseIf alternate)"

section \<open>The serialization context\<close>

record SerializationContext =
  eol :: string
  indentString :: string
  indentLevel :: int

text \<open>The line ending is the host's \<open>EOL\<close>, a parameter of the model.\<close>

definition new_SerializationContext :: "string \<Rightarrow> SerializationContext" where
  "new_SerializationContext EOL = \<lparr> eol = EOL, indentString = ''  '', indentLevel = 0 \<rparr>"

text \<open>\<open>String.prototype.repeat\<close> raises a \<open>RangeError\<close> on a negative count.\<close>

definition indentation :: "SerializationContext \<Rightarrow> error + string" where
  "indentation context =
     (if indentLevel context < 0 then Inl RangeError
      else Inr (concat (replicate (nat (indentLevel context)) (indentString context))))"

definition indent :: "SerializationContext \<Rightarrow> int \<Rightarrow> SerializationContext" where
  "indent context increaseBy = context\<lparr> indentLevel := indentLevel context + increaseBy \<rparr>"

definition dedent :: "SerializationContext \<Rightarrow> int \<Rightarrow> SerializationContext" where
  "dedent context decreaseBy = context\<lparr> indentLevel := indentLevel context - decreaseBy \<rparr>"

section \<open>Serialization\<close>

text \<open>\<open>if (this.alternate)\<close>: \<open>null\<close> and \<open>undefined\<close> are falsy, every node object is truthy.\<close>

fun present :: "vtl \<Rightarrow> bool" where
  "present NullNode = False"
| "present UndefinedNode = False"
| "present node = True"

text \<open>The \<open>isElseIf\<close> property read off any node.\<close>

fun isElseIf :: "vtl \<Rightarrow> bool" where
  "isElseIf (IfDirectiveNode flag test consequent alternate) = flag"
| "isElseIf node = False"

text \<open>
  \<open>serialize\<close> returns the text or the error thrown, together with the context as the
  call leaves it: the context is a mutable object, and an exception does not undo the
  \<open>indent\<close> calls made before it.
\<close>

fun serialize :: "vtl \<Rightarrow> SerializationContext \<Rightarrow> (error + string) \<times> SerializationContext"
and serialize_statements ::
  "vtl list \<Rightarrow> string \<Rightarrow> SerializationContext \<Rightarrow> (error + string) \<times> SerializationContext"
where
  "serialize (ForEachDirectiveNode iterator iterable body) context =
     (case interpolate iterator (toString iterator) of
        Inl e \<Rightarrow> (Inl e, context)
      | Inr i \<Rightarrow>
         (case interpolate iterable (toString iterable) of
            Inl e \<Rightarrow> (Inl e, context)
          | Inr xs \<Rightarrow>
             (let str = ''#foreach( '' @ i @ '' in '' @ xs @ '' )'' @ eol context
              in case serialize body (indent context 1) of
                   (Inl e, c1) \<Rightarrow> (Inl e, c1)
                 | (Inr b, c1) \<Rightarrow> (Inr (str @ b @ ''#end''), dedent c1 1))))"
| "serialize (IfDirectiveNode flag test consequent alternate) context =
     (case serialize test context of
        (Inl e, c1) \<Rightarrow> (Inl e, c1)
      | (Inr t, c1) \<Rightarrow>
         (let str = ''#'' @ (if flag then ''elseif'' else ''if'') @ ''( '' @ t @ '' )'' @ eol c1
          in case serialize consequent (indent c1 1) of
               (Inl e, c2) \<Rightarrow> (Inl e, c2)
             | (Inr s, c2) \<Rightarrow>
                (let c3 = dedent c2 1 in
                 if present alternate then
                   if isElseIf alternate then
                     (case serialize alternate c3 of
                        (Inl e, c4) \<Rightarrow> (Inl e, c4)
                      | (Inr a, c4) \<Rightarrow> (Inr (str @ s @ a), c4))
                   else
                     (case serialize alternate (indent c3 1) of
                        (Inl e, c4) \<Rightarrow> (Inl e, c4)
                      | (Inr a, c4) \<Rightarrow>
                         (Inr (str @ s @ ''#else'' @ eol c3 @ a @ ''#end'' @ eol (dedent c4 1)),
                          dedent c4 1))
                 else (Inr (str @ s @ ''#end'' @ eol c3), c3))))"
| "serialize (SetDirectiveNode reference expression) context =
     (case indentation context of
        Inl e \<Rightarrow> (Inl e, context)
      | Inr i \<Rightarrow>
         (case toString (SetDirectiveNode reference expression) of
            Inl e \<Rightarrow> (Inl e, context)
          | Inr directive \<Rightarrow> (Inr (i @ directive @ eol context), context)))"
| "serialize (StatementListNode statements) context = serialize_statements statements [] context"
| "serialize NullNode context = (Inl TypeError, context)"
| "serialize UndefinedNode context = (Inl TypeError, context)"
| "serialize (ArrayListNode elements) context = (toString (ArrayListNode elements), context)"
| "serialize (BinaryExpressionNode operator left right) context =
     (toString (BinaryExpressionNode operator left right), context)"
| "serialize (IdentifierNode name) context = (toString (IdentifierNode name), context)"
| "serialize (LiteralNode v) context = (toString (LiteralNode v), context)"
| "serialize (MapNode entries) context = (toString (MapNode entries), context)"
| "serialize (MethodReferenceNode property parameters) context =
     (toString (MethodReferenceNode property parameters), context)"
| "serialize (PropertyReferenceNode r receiver property) context =
     (toString (PropertyReferenceNode r receiver property), context)"
| "serialize (UnaryExpressionNode operator argument prefix) context =
     (toString (UnaryExpressionNode operator argument prefix), context)"
| "serialize (VariableReferenceNode identifier symbol) context =
     (toString (VariableReferenceNode identifier symbol), context)"
| "serialize_statements [] str context = (Inr str, context)"
| "serialize_statements (statement # rest) str context =
     (case serialize statement context of
        (Inl e, c1) \<Rightarrow> (Inl e, c1)
      | (Inr s, c1) \<Rightarrow> serialize_statements rest (str @ s) c1)"

section \<open>The source syntax tree\<close>

text \<open>
  The parser is an external collaborator; the transform receives its tree. The model has
  one constructor per node type that has a walker of its own in \<open>walkers\<close> (node types
  left to the walking library's default traversal are outside the model). Every node
  carries \<open>loc\<close>, reduced to what \<open>reportError\<close> reads: \<open>Some (line, column)\<close> is
  \<open>loc.start\<close>, \<open>None\<close> a node without location. The sixteen node types whose walker
  is \<open>unsupported(message)\<close> share one constructor; their walker never looks at their
  children. Switch cases and object properties are visited only by the walkers of the
  switch statement and the object expression, so they are types of their own.
\<close>

type_synonym location = "(nat \<times> nat) option"

datatype unsupported_type =
    BreakStatement | CatchClause | ContinueStatement | DebuggerStatement | DoWhileStatement
  | ForInStatement | ForStatement | FunctionDeclaration | FunctionExpression
  | LabeledStatement | ReturnStatement | ThisExpression | ThrowStatement | TryStatement
  | WhileStatement | WithStatement

datatype js =
    ArrayExpression location "js option list"
  | AssignmentExpression location string js js
  | BinaryExpression location string js js
  | BlockStatement location "js list"
  | CallExpression location js "js list"
  | ExpressionStatement location js
  | ForOfStatement location js js js
  | Identifier location string
  | IfStatement location js js "js option"
  | Literal location literal
  | MemberExpression location js js
  | ObjectExpression location "property list"
  | Program location "js list"
  | SwitchStatement location js "switch_case list"
  | UnaryExpression location string js bool
  | VariableDeclaration location "js list"
  | VariableDeclarator location js "js option"
  | Unsupported unsupported_type location
and property = Property location bool js bool string js
and switch_case = SwitchCase location "js option" "js list"

text \<open>
  \<open>Property loc computed key method kind value\<close>; \<open>SwitchCase loc test consequent\<close>,
  a \<open>test\<close> of \<open>None\<close> being the default case; \<open>IfStatement loc test consequent alternate\<close>
  and \<open>VariableDeclarator loc id init\<close> with \<open>None\<close> for \<open>null\<close>; an array element of
  \<open>None\<close> is a hole.
\<close>

fun loc :: "js \<Rightarrow> location" where
  "loc (ArrayExpression l elements) = l"
| "loc (AssignmentExpression l operator left right) = l"
| "loc (BinaryExpression l operator left right) = l"
| "loc (BlockStatement l body) = l"
| "loc (CallExpression l callee arguments) = l"
| "loc (ExpressionStatement l expression) = l"
| "loc (ForOfStatement l left right body) = l"
| "loc (Identifier l name) = l"
| "loc (IfStatement l test consequent alternate) = l"
| "loc (Literal l v) = l"
| "loc (MemberExpression l object property) = l"
| "loc (ObjectExpression l properties) = l"
| "loc (Program l body) = l"
| "loc (SwitchStatement l discriminant cases) = l"
| "loc (UnaryExpression l operator argument prefix) = l"
| "loc (VariableDeclaration l declarations) = l"
| "loc (VariableDeclarator l ident init) = l"
| "loc (Unsupported t l) = l"

section \<open>The symbol table\<close>

text \<open>
  Modelled from the spec: the module \<open>symbol-table\<close> (class \<open>SymbolTable\<close> with
  \<open>symbol\<close>, \<open>lookup\<close>, \<open>createNestedScope\<close> and \<open>parent\<close>) is required by the transform
  but is not in the available sources. Following the spec, a table is a chain of frames,
  each a mapping from source name to assigned target name, with a counter per base name
  that all frames share: the first declaration of a base name is assigned the name itself,
  the next ones the name with the suffixes \<open>_1\<close>, \<open>_2\<close>, ... Lookup searches the current
  frame, then each ancestor outwards. A symbol is represented by its target name.
\<close>

record SymbolTable =
  symbols :: "string \<rightharpoonup> string"
  ancestors :: "(string \<rightharpoonup> string) list"
  versions :: "string \<rightharpoonup> nat"

definition new_SymbolTable :: SymbolTable where
  "new_SymbolTable = \<lparr> symbols = Map.empty, ancestors = [], versions = Map.empty \<rparr>"

definition createNestedScope :: "SymbolTable \<Rightarrow> SymbolTable" where
  "createNestedScope table =
     \<lparr> symbols = Map.empty, ancestors = symbols table # ancestors table,
       versions = versions table \<rparr>"

definition parent :: "SymbolTable \<Rightarrow> SymbolTable option" where
  "parent table =
     (case ancestors table of
        [] \<Rightarrow> None
      | frame # frames \<Rightarrow> Some \<lparr> symbols = frame, ancestors = frames, versions = versions table \<rparr>)"

definition target_name :: "string \<Rightarrow> nat option \<Rightarrow> string" where
  "target_name name version =
     (case version of None \<Rightarrow> name | Some k \<Rightarrow> name @ ''_'' @ string_of_nat k)"

definition symbol :: "string \<Rightarrow> SymbolTable \<Rightarrow> string \<times> SymbolTable" where
  "symbol name table =
     (let target = target_name name (versions table name)
      in (target,
          table\<lparr> symbols := (symbols table)(name \<mapsto> target),
                 versions := (versions table)
                   (name \<mapsto> (case versions table name of None \<Rightarrow> 1 | Some k \<Rightarrow> Suc k)) \<rparr>))"

fun lookup_frames :: "string \<Rightarrow> (string \<rightharpoonup> string) list \<Rightarrow> string option" where
  "lookup_frames name [] = None"
| "lookup_frames name (frame # frames) =
     (case frame name of Some target \<Rightarrow> Some target | None \<Rightarrow> lookup_frames name frames)"

definition lookup :: "string \<Rightarrow> SymbolTable \<Rightarrow> string option" where
  "lookup name table = lookup_frames name (symbols table # ancestors table)"

section \<open>The transform (js-walker)\<close>

text \<open>
  The state threaded through the walk: the node produced by the last visit, the current
  scope (\<open>None\<close> for \<open>null\<close>) and the global names of the environment
  (\<open>state?.env?.globals ?? []\<close>).
\<close>

record state =
  lastChild :: vtl
  scope :: "SymbolTable option"
  globals :: "string list"

definition kDiscardName :: string where
  "kDiscardName = ''discard''"

definition quoted :: "string \<Rightarrow> string" where
  "quoted s = [CHR 0x27] @ s @ [CHR 0x27]"

text \<open>\<open>reportError\<close> always throws; the model returns the error it throws.\<close>

definition reportError :: "string \<Rightarrow> location \<Rightarrow> error" where
  "reportError message l =
     Error ((case l of
               None \<Rightarrow> []
             | Some (line, column) \<Rightarrow>
                 ''Line '' @ string_of_nat line @ '', column '' @ string_of_nat (column + 1) @ '': '')
            @ message)"

fun unsupported :: "unsupported_type \<Rightarrow> string" where
  "unsupported BreakStatement = quoted ''break'' @ '' statements are not supported''"
| "unsupported CatchClause = quoted ''try...catch'' @ '' statements are not supported''"
| "unsupported ContinueStatement = quoted ''continue'' @ '' statements are not supported''"
| "unsupported DebuggerStatement = quoted ''debugger'' @ '' statements are not supported''"
| "unsupported DoWhileStatement = quoted ''do...while'' @ '' loops are not supported''"
| "unsupported ForInStatement = quoted ''for...in'' @ '' loops are not supported''"
| "unsupported ForStatement = quoted ''for'' @ '' loops are not supported''"
| "unsupported FunctionDeclaration = ''function declarations are not supported''"
| "unsupported FunctionExpression = ''function expressions are not supported''"
| "unsupported LabeledStatement = ''labeled statements are not supported''"
| "unsupported ReturnStatement = quoted ''return'' @ '' statements are not supported''"
| "unsupported ThisExpression = quoted ''this'' @ '' expressions are not supported''"
| "unsupported ThrowStatement = quoted ''throw'' @ '' statements are not supported''"
| "unsupported TryStatement = quoted ''try...catch'' @ '' statements are not supported''"
| "unsupported WhileStatement = quoted ''while'' @ '' loops are not supported''"
| "unsupported WithStatement = quoted ''with'' @ '' statements are not supported''"

definition enterScope :: "state \<Rightarrow> state" where
  "enterScope st =
     (case scope st of
        None \<Rightarrow> st\<lparr> scope := Some new_SymbolTable \<rparr>
      | Some table \<Rightarrow> st\<lparr> scope := Some (createNestedScope table) \<rparr>)"

definition exitScope :: "state \<Rightarrow> state" where
  "exitScope st =
     (case scope st of
        None \<Rightarrow> st
      | Some table \<Rightarrow> st\<lparr> scope := parent table \<rparr>)"

text \<open>A method call on a \<open>null\<close> scope is a \<open>TypeError\<close>.\<close>

fun declVarRef :: "vtl \<Rightarrow> state \<Rightarrow> error + (vtl \<times> state)" where
  "declVarRef (IdentifierNode name) st =
     (case scope st of
        None \<Rightarrow> Inl TypeError
      | Some table \<Rightarrow>
          (case symbol name table of
             (target, table') \<Rightarrow>
               Inr (VariableReferenceNode (IdentifierNode name) target,
                    st\<lparr> scope := Some table' \<rparr>)))"
| "declVarRef node st = Inr (node, st)"

fun nonDeclVarRef :: "vtl \<Rightarrow> state \<Rightarrow> js \<Rightarrow> error + vtl" where
  "nonDeclVarRef (IdentifierNode name) st jsNode =
     (case scope st of
        None \<Rightarrow> Inl TypeError
      | Some table \<Rightarrow>
          (case lookup name table of
             None \<Rightarrow>
               Inl (reportError (''variable '' @ quoted name @ '' was not declared'') (loc jsNode))
           | Some target \<Rightarrow> Inr (VariableReferenceNode (IdentifierNode name) target)))"
| "nonDeclVarRef node st jsNode = Inr node"

fun registerGlobals :: "string list \<Rightarrow> SymbolTable \<Rightarrow> SymbolTable" where
  "registerGlobals [] table = table"
| "registerGlobals (globalVariable # rest) table =
     registerGlobals rest (snd (symbol globalVariable table))"

definition registerEnvGlobals :: "state \<Rightarrow> error + state" where
  "registerEnvGlobals st =
     (case scope st of
        None \<Rightarrow> Inl TypeError
      | Some table \<Rightarrow>
          Inr (st\<lparr> scope := Some (snd (symbol kDiscardName (registerGlobals (globals st) table))) \<rparr>))"

text \<open>Property reads on a node of any class; a missing property is \<open>undefined\<close>.\<close>

fun left :: "vtl \<Rightarrow> vtl" where
  "left (BinaryExpressionNode operator l r) = l"
| "left node = UndefinedNode"

fun right :: "vtl \<Rightarrow> vtl" where
  "right (BinaryExpressionNode operator l r) = r"
| "right node = UndefinedNode"

text \<open>\<open>state.lastChild.statements[0]\<close>: reading index 0 of \<open>undefined\<close> is a \<open>TypeError\<close>.\<close>

fun first_statement :: "vtl \<Rightarrow> error + vtl" where
  "first_statement (StatementListNode []) = Inr UndefinedNode"
| "first_statement (StatementListNode (statement # rest)) = Inr statement"
| "first_statement node = Inl TypeError"

text \<open>\<open>const { name } = key\<close> inside a message: destructuring \<open>null\<close> is a \<open>TypeError\<close>.\<close>

fun key_name :: "vtl \<Rightarrow> error + string" where
  "key_name (IdentifierNode n) = Inr n"
| "key_name NullNode = Inl TypeError"
| "key_name UndefinedNode = Inl TypeError"
| "key_name node = Inr ''undefined''"

fun isMemberExpression :: "js \<Rightarrow> bool" where
  "isMemberExpression (MemberExpression l object property) = True"
| "isMemberExpression node = False"

fun isAssignmentExpression :: "js \<Rightarrow> bool" where
  "isAssignmentExpression (AssignmentExpression l operator lhs rhs) = True"
| "isAssignmentExpression node = False"

fun isBreakStatement :: "js \<Rightarrow> bool" where
  "isBreakStatement (Unsupported BreakStatement l) = True"
| "isBreakStatement node = False"

text \<open>\<open>node.callee?.name ?? null\<close>, as the template literal prints it.\<close>

fun callee_name :: "js \<Rightarrow> string" where
  "callee_name (Identifier l n) = n"
| "callee_name node = ''null''"

text \<open>
  \<open>visit node st\<close> is the walker of the node's type run on the state: the state it
  leaves, or the error thrown. The loops of the walkers are the list functions:
  \<open>visit_each\<close> for the three loops that visit every element and push \<open>state.lastChild\<close>
  (program, block, variable declaration; the program's \<open>Statement\<close> walker only dispatches
  on the node's type), \<open>visit_elements\<close>, \<open>visit_arguments\<close>, \<open>visit_properties\<close>,
  \<open>visit_cases\<close> and, for the statements of one case, \<open>visit_consequent\<close>, which also
  returns \<open>canFallthrough\<close>.
\<close>

fun visit :: "js \<Rightarrow> state \<Rightarrow> error + state"
and visit_each :: "js list \<Rightarrow> state \<Rightarrow> error + (vtl list \<times> state)"
and visit_elements :: "js option list \<Rightarrow> location \<Rightarrow> state \<Rightarrow> error + (vtl list \<times> state)"
and visit_arguments :: "js list \<Rightarrow> state \<Rightarrow> error + (vtl list \<times> state)"
and visit_properties :: "property list \<Rightarrow> state \<Rightarrow> error + ((vtl \<times> vtl) list \<times> state)"
and visit_cases ::
  "switch_case list \<Rightarrow> vtl \<Rightarrow> vtl \<Rightarrow> vtl \<Rightarrow> state \<Rightarrow> error + (vtl list \<times> state)"
and visit_consequent :: "js list \<Rightarrow> state \<Rightarrow> error + (vtl list \<times> bool \<times> state)"
where
  "visit (ArrayExpression l elements) st =
     (case visit_elements elements l st of
        Inl e \<Rightarrow> Inl e
      | Inr (array, s1) \<Rightarrow> Inr (s1\<lparr> lastChild := ArrayListNode array \<rparr>))"
| "visit (AssignmentExpression l operator lhs rhs) st =
     (case visit lhs st of
        Inl e \<Rightarrow> Inl e
      | Inr s1 \<Rightarrow>
         (case visit rhs s1 of
            Inl e \<Rightarrow> Inl e
          | Inr s2 \<Rightarrow>
              Inr (s2\<lparr> lastChild := BinaryExpressionNode operator (lastChild s1) (lastChild s2) \<rparr>)))"
| "visit (BinaryExpression l operator lhs rhs) st =
     (case visit lhs st of
        Inl e \<Rightarrow> Inl e
      | Inr s1 \<Rightarrow>
         (case nonDeclVarRef (lastChild s1) s1 lhs of
            Inl e \<Rightarrow> Inl e
          | Inr lv \<Rightarrow>
             (case visit rhs s1 of
                Inl e \<Rightarrow> Inl e
              | Inr s2 \<Rightarrow>
                 (case nonDeclVarRef (lastChild s2) s2 rhs of
                    Inl e \<Rightarrow> Inl e
                  | Inr rv \<Rightarrow> Inr (s2\<lparr> lastChild := BinaryExpressionNode operator lv rv \<rparr>)))))"
| "visit (BlockStatement l body) st =
     (case visit_each body (enterScope st) of
        Inl e \<Rightarrow> Inl e
      | Inr (statements, s1) \<Rightarrow> Inr ((exitScope s1)\<lparr> lastChild := StatementListNode statements \<rparr>))"
| "visit (CallExpression l callee arguments) st =
     (case visit callee st of
        Inl e \<Rightarrow> Inl e
      | Inr s1 \<Rightarrow>
          if \<not> isMemberExpression callee then
            (if callee_name callee = ''Symbol''
             then Inl (reportError ''symbol data types are not supported'' l)
             else Inl (reportError
                         (''non-method functions are not supported: '' @ callee_name callee) l))
          else
            (case visit_arguments arguments s1 of
               Inl e \<Rightarrow> Inl e
             | Inr (args, s2) \<Rightarrow>
                 Inr (s2\<lparr> lastChild := MethodReferenceNode (lastChild s1) args \<rparr>)))"
| "visit (ExpressionStatement l expression) st =
     (case visit expression st of
        Inl e \<Rightarrow> Inl e
      | Inr s1 \<Rightarrow>
          if isAssignmentExpression expression then
            (case nonDeclVarRef (left (lastChild s1)) s1 expression of
               Inl e \<Rightarrow> Inl e
             | Inr reference \<Rightarrow>
                 Inr (s1\<lparr> lastChild := SetDirectiveNode reference (right (lastChild s1)) \<rparr>))
          else
            (case nonDeclVarRef (IdentifierNode kDiscardName) s1 expression of
               Inl e \<Rightarrow> Inl e
             | Inr reference \<Rightarrow>
                 Inr (s1\<lparr> lastChild := SetDirectiveNode reference (lastChild s1) \<rparr>)))"
| "visit (ForOfStatement l lhs rhs body) st =
     (case visit lhs st of
        Inl e \<Rightarrow> Inl e
      | Inr s1 \<Rightarrow>
         (case first_statement (lastChild s1) of
            Inl e \<Rightarrow> Inl e
          | Inr iterator \<Rightarrow>
             (case nonDeclVarRef iterator s1 lhs of
                Inl e \<Rightarrow> Inl e
              | Inr iteratorRef \<Rightarrow>
                 (case visit rhs s1 of
                    Inl e \<Rightarrow> Inl e
                  | Inr s2 \<Rightarrow>
                     (case nonDeclVarRef (lastChild s2) s2 rhs of
                        Inl e \<Rightarrow> Inl e
                      | Inr iterableRef \<Rightarrow>
                         (case visit body s2 of
                            Inl e \<Rightarrow> Inl e
                          | Inr s3 \<Rightarrow>
                              Inr (s3\<lparr> lastChild :=
                                     ForEachDirectiveNode iteratorRef iterableRef (lastChild s3) \<rparr>)))))))"
| "visit (Identifier l n) st = Inr (st\<lparr> lastChild := IdentifierNode n \<rparr>)"
| "visit (IfStatement l test consequent alternate) st =
     (case visit test st of
        Inl e \<Rightarrow> Inl e
      | Inr s1 \<Rightarrow>
         (case visit consequent s1 of
            Inl e \<Rightarrow> Inl e
          | Inr s2 \<Rightarrow>
             (case alternate of
                None \<Rightarrow> Inl TypeError
              | Some alt \<Rightarrow>
                 (case visit alt s2 of
                    Inl e \<Rightarrow> Inl e
                  | Inr s3 \<Rightarrow>
                      Inr (s3\<lparr> lastChild :=
                             new_IfDirectiveNode (lastChild s1) (lastChild s2) (lastChild s3) \<rparr>)))))"
| "visit (Literal l v) st = Inr (st\<lparr> lastChild := LiteralNode v \<rparr>)"
| "visit (MemberExpression l object property) st =
     (case visit object st of
        Inl e \<Rightarrow> Inl e
      | Inr s1 \<Rightarrow>
         (case visit property s1 of
            Inl e \<Rightarrow> Inl e
          | Inr s2 \<Rightarrow>
             (case new_PropertyReferenceNode (lastChild s1) (lastChild s2) of
                Inl e \<Rightarrow> Inl e
              | Inr node \<Rightarrow> Inr (s2\<lparr> lastChild := node \<rparr>))))"
| "visit (ObjectExpression l properties) st =
     (case visit_properties properties st of
        Inl e \<Rightarrow> Inl e
      | Inr (entries, s1) \<Rightarrow> Inr (s1\<lparr> lastChild := MapNode entries \<rparr>))"
| "visit (Program l body) st =
     (case registerEnvGlobals (enterScope st) of
        Inl e \<Rightarrow> Inl e
      | Inr s0 \<Rightarrow>
         (case visit_each body s0 of
            Inl e \<Rightarrow> Inl e
          | Inr (statements, s1) \<Rightarrow>
              Inr ((exitScope s1)\<lparr> lastChild := StatementListNode statements \<rparr>)))"
| "visit (SwitchStatement l discriminant cases) st =
     (case visit discriminant st of
        Inl e \<Rightarrow> Inl e
      | Inr s1 \<Rightarrow>
         (case declVarRef (IdentifierNode ''matched'') s1 of
            Inl e \<Rightarrow> Inl e
          | Inr (matched, s2) \<Rightarrow>
             (case declVarRef (IdentifierNode ''fallthrough'') s2 of
                Inl e \<Rightarrow> Inl e
              | Inr (fallthrough, s3) \<Rightarrow>
                 (case declVarRef (IdentifierNode ''discriminant'') s3 of
                    Inl e \<Rightarrow> Inl e
                  | Inr (discr, s4) \<Rightarrow>
                     (case visit_cases cases matched fallthrough discr s4 of
                        Inl e \<Rightarrow> Inl e
                      | Inr (ifs, s5) \<Rightarrow>
                          Inr (s5\<lparr> lastChild := StatementListNode
                                 ([SetDirectiveNode matched (LiteralNode (LBoolean False)),
                                   SetDirectiveNode fallthrough (LiteralNode (LBoolean False)),
                                   SetDirectiveNode discr (lastChild s4)] @ ifs) \<rparr>))))))"
| "visit (UnaryExpression l operator argument prefix) st =
     (case visit argument st of
        Inl e \<Rightarrow> Inl e
      | Inr s1 \<Rightarrow> Inr (s1\<lparr> lastChild := UnaryExpressionNode operator (lastChild s1) prefix \<rparr>))"
| "visit (VariableDeclaration l declarations) st =
     (case visit_each declarations st of
        Inl e \<Rightarrow> Inl e
      | Inr (statements, s1) \<Rightarrow> Inr (s1\<lparr> lastChild := StatementListNode statements \<rparr>))"
| "visit (VariableDeclarator l ident init) st =
     (case visit ident st of
        Inl e \<Rightarrow> Inl e
      | Inr s1 \<Rightarrow>
         (case declVarRef (lastChild s1) s1 of
            Inl e \<Rightarrow> Inl e
          | Inr (reference, s2) \<Rightarrow>
             (case init of
                None \<Rightarrow> Inr s2
              | Some i \<Rightarrow>
                 (case visit i s2 of
                    Inl e \<Rightarrow> Inl e
                  | Inr s3 \<Rightarrow> Inr (s3\<lparr> lastChild := SetDirectiveNode reference (lastChild s3) \<rparr>)))))"
| "visit (Unsupported t l) st = Inl (reportError (unsupported t) l)"
| "visit_each [] st = Inr ([], st)"
| "visit_each (stmt # rest) st =
     (case visit stmt st of
        Inl e \<Rightarrow> Inl e
      | Inr s1 \<Rightarrow>
         (case visit_each rest s1 of
            Inl e \<Rightarrow> Inl e
          | Inr (statements, s2) \<Rightarrow> Inr (lastChild s1 # statements, s2)))"
| "visit_elements [] l st = Inr ([], st)"
| "visit_elements (None # rest) l st = Inl (reportError ''array holes are not supported'' l)"
| "visit_elements (Some element # rest) l st =
     (case visit element st of
        Inl e \<Rightarrow> Inl e
      | Inr s1 \<Rightarrow>
         (case nonDeclVarRef (lastChild s1) s1 element of
            Inl e \<Rightarrow> Inl e
          | Inr v \<Rightarrow>
             (case visit_elements rest l s1 of
                Inl e \<Rightarrow> Inl e
              | Inr (array, s2) \<Rightarrow> Inr (v # array, s2))))"
| "visit_arguments [] st = Inr ([], st)"
| "visit_arguments (a # rest) st =
     (case visit a st of
        Inl e \<Rightarrow> Inl e
      | Inr s1 \<Rightarrow>
         (case nonDeclVarRef (lastChild s1) s1 a of
            Inl e \<Rightarrow> Inl e
          | Inr v \<Rightarrow>
             (case visit_arguments rest s1 of
                Inl e \<Rightarrow> Inl e
              | Inr (args, s2) \<Rightarrow> Inr (v # args, s2))))"
| "visit_properties [] st = Inr ([], st)"
| "visit_properties (Property pl computed key method kind v # rest) st =
     (if computed then Inl (reportError ''computed properties are not supported'' pl)
      else
        (case visit key st of
           Inl e \<Rightarrow> Inl e
         | Inr s1 \<Rightarrow>
            (case key_name (lastChild s1) of
               Inl e \<Rightarrow> Inl e
             | Inr n \<Rightarrow>
                 if method then
                   Inl (reportError (''methods ('' @ quoted n @ '') are not supported'') pl)
                 else if kind = ''get'' then
                   Inl (reportError (''getters ('' @ quoted n @ '') are not supported'') pl)
                 else if kind = ''set'' then
                   Inl (reportError (''setters ('' @ quoted n @ '') are not supported'') pl)
                 else
                   (case visit v s1 of
                      Inl e \<Rightarrow> Inl e
                    | Inr s2 \<Rightarrow>
                       (case nonDeclVarRef (lastChild s2) s2 v of
                          Inl e \<Rightarrow> Inl e
                        | Inr val \<Rightarrow>
                           (case visit_properties rest s2 of
                              Inl e \<Rightarrow> Inl e
                            | Inr (entries, s3) \<Rightarrow> Inr ((lastChild s1, val) # entries, s3)))))))"
| "visit_cases [] matched fallthrough discr st = Inr ([], st)"
| "visit_cases (SwitchCase cl test consequent # rest) matched fallthrough discr st =
     (case (case test of
              None \<Rightarrow> Inr (NullNode, st)
            | Some t \<Rightarrow>
               (case visit t st of
                  Inl e \<Rightarrow> Inl e
                | Inr s1 \<Rightarrow> Inr (BinaryExpressionNode ''=='' discr (lastChild s1), s1))) of
        Inl e \<Rightarrow> Inl e
      | Inr (caseTest, s1) \<Rightarrow>
         (case visit_consequent consequent s1 of
            Inl e \<Rightarrow> Inl e
          | Inr (consequentStmts, canFallthrough, s2) \<Rightarrow>
             (case visit_cases rest matched fallthrough discr s2 of
                Inl e \<Rightarrow> Inl e
              | Inr (ifs, s3) \<Rightarrow>
                  Inr (new_IfDirectiveNode
                         (if test = None
                          then BinaryExpressionNode ''||'' fallthrough
                                 (UnaryExpressionNode ''!'' matched True)
                          else BinaryExpressionNode ''||'' fallthrough caseTest)
                         (StatementListNode
                            (consequentStmts @
                             [SetDirectiveNode matched (LiteralNode (LBoolean True)),
                              SetDirectiveNode fallthrough (LiteralNode (LBoolean canFallthrough))]))
                         NullNode # ifs, s3))))"
| "visit_consequent [] st = Inr ([], True, st)"
| "visit_consequent (stmt # rest) st =
     (if isBreakStatement stmt then Inr ([], False, st)
      else
        (case visit stmt st of
           Inl e \<Rightarrow> Inl e
         | Inr s1 \<Rightarrow>
            (case visit_consequent rest s1 of
               Inl e \<Rightarrow> Inl e
             | Inr (statements, canFallthrough, s2) \<Rightarrow>
                 Inr (lastChild s1 # statements, canFallthrough, s2))))"

text \<open>
  \<open>transpile\<close>, from the parsed tree on: a fresh state and a fresh serialization context
  (with the host's line ending), the walk from the root, and the serialization of the
  last node produced.
\<close>

definition transpile :: "string \<Rightarrow> js \<Rightarrow> string list \<Rightarrow> error + string" where
  "transpile EOL ast env =
     (case visit ast \<lparr> lastChild = NullNode, scope = None, globals = env \<rparr> of
        Inl e \<Rightarrow> Inl e
      | Inr st \<Rightarrow> fst (serialize (lastChild st) (new_SerializationContext EOL)))"

section \<open>Notions used to state the properties\<close>

subsection \<open>Parentheses, in the words of the specification\<close>

text \<open>
  The precedence table of the specification: additive operators have precedence 1,
  multiplicative operators 2, every other operator has none. An operand is parenthesized
  when it is a binary expression whose precedence is strictly lower than its parent's.
\<close>

definition spec_precedence :: "string \<Rightarrow> nat option" where
  "spec_precedence operator =
     (if operator = ''+'' \<or> operator = ''-'' then Some 1
      else if operator = ''*'' \<or> operator = ''/'' then Some 2
      else None)"

fun spec_parenthesized :: "vtl \<Rightarrow> string \<Rightarrow> bool" where
  "spec_parenthesized (BinaryExpressionNode operator l r) parent_operator =
     (case spec_precedence operator of
        None \<Rightarrow> False
      | Some p \<Rightarrow> (case spec_precedence parent_operator of None \<Rightarrow> False | Some q \<Rightarrow> p < q))"
| "spec_parenthesized operand parent_operator = False"

subsection \<open>Reference chains\<close>

text \<open>
  The links of a chain are the property references met from a node down its receivers,
  passing through method references; \<open>root_flags\<close> lists their root flags, outermost
  first. A node that is not a property or method reference ends the chain.
\<close>

fun root_flags :: "vtl \<Rightarrow> bool list" where
  "root_flags (PropertyReferenceNode r receiver property) = r # root_flags receiver"
| "root_flags (MethodReferenceNode property parameters) = root_flags property"
| "root_flags node = []"

fun isPropertyReference :: "vtl \<Rightarrow> bool" where
  "isPropertyReference (PropertyReferenceNode r receiver property) = True"
| "isPropertyReference node = False"

text \<open>
  \<open>single_root h node\<close>: in \<open>node\<close>, every chain has its root flag set on its outermost
  property reference and on no other link. \<open>h\<close> tells whether \<open>node\<close> itself stands at the
  head of a chain (\<open>True\<close>) or is the receiver of a link above it (\<open>False\<close>). Properties,
  arguments, operands and statements start chains of their own.
\<close>

fun single_root :: "bool \<Rightarrow> vtl \<Rightarrow> bool" where
  "single_root h (PropertyReferenceNode r receiver property) =
     (r = h \<and> single_root False receiver \<and> single_root True property)"
| "single_root h (MethodReferenceNode property parameters) =
     (isPropertyReference property \<and> single_root h property
      \<and> list_all (single_root True) parameters)"
| "single_root h (ArrayListNode elements) = list_all (single_root True) elements"
| "single_root h (BinaryExpressionNode operator l r) = (single_root True l \<and> single_root True r)"
| "single_root h (ForEachDirectiveNode iterator iterable body) =
     (single_root True iterator \<and> single_root True iterable \<and> single_root True body)"
| "single_root h (IdentifierNode n) = True"
| "single_root h (IfDirectiveNode flag test consequent alternate) =
     (single_root True test \<and> single_root True consequent \<and> single_root True alternate)"
| "single_root h (LiteralNode v) = True"
| "single_root h (MapNode entries) =
     list_all (\<lambda>kv. single_root True (fst kv) \<and> single_root True (snd kv)) entries"
| "single_root h (SetDirectiveNode reference expression) =
     (single_root True reference \<and> single_root True expression)"
| "single_root h (StatementListNode statements) = list_all (single_root True) statements"
| "single_root h (UnaryExpressionNode operator argument prefix) = single_root True argument"
| "single_root h (VariableReferenceNode identifier target) = single_root True identifier"
| "single_root h NullNode = True"
| "single_root h UndefinedNode = True"

subsection \<open>Error messages, in the words of the specification\<close>





subsection \<open>The lowering of a switch statement\<close>

text \<open>\<open>visited node v\<close>: \<open>v\<close> is the node that a successful visit of \<open>node\<close> produces.\<close>

definition visited :: "js \<Rightarrow> vtl \<Rightarrow> bool" where
  "visited node v = (\<exists>s s'. visit node s = Inr s' \<and> lastChild s' = v)"

definition has_break :: "js list \<Rightarrow> bool" where
  "has_break consequent = list_ex isBreakStatement consequent"

definition before_break :: "js list \<Rightarrow> js list" where
  "before_break consequent = takeWhile (\<lambda>stmt. \<not> isBreakStatement stmt) consequent"

fun case_test :: "switch_case \<Rightarrow> js option" where
  "case_test (SwitchCase l test consequent) = test"

fun case_consequent :: "switch_case \<Rightarrow> js list" where
  "case_consequent (SwitchCase l test consequent) = consequent"

text \<open>
  The if directive that a case is lowered to, given the references \<open>m\<close>, \<open>f\<close> and
  \<open>d\<close> to the temporaries for matched, fallthrough and discriminant.
\<close>

definition lowered_test :: "vtl \<Rightarrow> vtl \<Rightarrow> vtl \<Rightarrow> js option \<Rightarrow> vtl \<Rightarrow> bool" where
  "lowered_test m f d test node =
     (case test of
        None \<Rightarrow> node = BinaryExpressionNode ''||'' f (UnaryExpressionNode ''!'' m True)
      | Some t \<Rightarrow>
          (\<exists>v. visited t v
               \<and> node = BinaryExpressionNode ''||'' f (BinaryExpressionNode ''=='' d v)))"

definition lowered_case :: "vtl \<Rightarrow> vtl \<Rightarrow> vtl \<Rightarrow> switch_case \<Rightarrow> vtl \<Rightarrow> bool" where
  "lowered_case m f d c node =
     (\<exists>test body.
        node = IfDirectiveNode False test
                 (StatementListNode
                    (body @ [SetDirectiveNode m (LiteralNode (LBoolean True)),
                             SetDirectiveNode f
                               (LiteralNode (LBoolean (\<not> has_break (case_consequent c))))]))
                 NullNode
        \<and> lowered_test m f d (case_test c) test
        \<and> list_all2 visited (before_break (case_consequent c)) body)"

text \<open>
  The operator of the comparison in the test of a lowered case: the test of a
  non-default case is \<open>fallthrough || (discriminant operator value)\<close>.
\<close>

fun comparison_operator :: "vtl \<Rightarrow> string option" where
  "comparison_operator
     (IfDirectiveNode flag (BinaryExpressionNode disjunction f (BinaryExpressionNode operator d v))
        consequent alternate) = Some operator"
| "comparison_operator node = None"

fun statements_of :: "vtl \<Rightarrow> vtl list" where
  "statements_of (StatementListNode statements) = statements"
| "statements_of node = []"

subsection \<open>Sequences of declarations\<close>









section \<open>Parenthesized operands\<close>

lemma operatorPrecedence_spec: "operatorPrecedence operator = spec_precedence operator"
  by (simp add: operatorPrecedence_def spec_precedence_def)

lemma spec_precedence_pos: "spec_precedence operator = Some p \<Longrightarrow> p \<noteq> 0"
  by (auto simp: spec_precedence_def split: if_splits)

lemma lower_precedence_spec:
  "lower_precedence (precedence operand) (operatorPrecedence operator)
     = spec_parenthesized operand operator"
  by (cases operand)
     (auto simp: lower_precedence_def operatorPrecedence_spec split: option.splits
           dest: spec_precedence_pos)

lemma spec_parenthesized_iff:
  "spec_parenthesized operand operator \<longleftrightarrow>
     (\<exists>operator' a b. operand = BinaryExpressionNode operator' a b
        \<and> (operator' = ''+'' \<or> operator' = ''-'') \<and> (operator = ''*'' \<or> operator = ''/''))"
  by (cases operand) (auto simp: spec_precedence_def)

text \<open>\<open>toString\<close> throws nothing but a \<open>TypeError\<close>.\<close>

lemma sequence_Inl: "sequence xs = Inl e \<Longrightarrow> Inl e \<in> set xs"
  by (induction xs) (auto split: sum.splits)

lemma interpolate_Inl: "interpolate node rendered = Inl e \<Longrightarrow> rendered = Inl e"
  by (auto simp: interpolate_def split: if_splits)

lemma join_element_Inl: "join_element node rendered = Inl e \<Longrightarrow> rendered = Inl e"
  by (auto simp: join_element_def split: if_splits)

lemma toString_Inl: "toString node = Inl e \<Longrightarrow> e = TypeError"
proof (induction node arbitrary: e rule: toString.induct)
  case (1 elements)
  from "1.prems" have "sequence (map (\<lambda>x. join_element x (toString x)) elements) = Inl e"
    by (auto split: sum.splits)
  then obtain x where "x \<in> set elements" "join_element x (toString x) = Inl e"
    by (auto dest!: sequence_Inl)
  with "1.IH" show ?case by (blast dest: join_element_Inl)
next
  case (10 entries)
  from "10.prems" have "Inl e \<in> set (map (\<lambda>kv. case interpolate (fst kv) (toString (fst kv)) of
                           Inl e \<Rightarrow> Inl e
                         | Inr k \<Rightarrow>
                            (case interpolate (snd kv) (toString (snd kv)) of
                               Inl e \<Rightarrow> Inl e
                             | Inr v \<Rightarrow>
                                Inr ([CHR 0x27] @ key_text (fst kv) k @ [CHR 0x27]
                                     @ '': '' @ v))) entries)"
    by (auto split: sum.splits dest!: sequence_Inl)
  then obtain kv where kv: "kv \<in> set entries"
    and thrown: "(case interpolate (fst kv) (toString (fst kv)) of
                    Inl e \<Rightarrow> Inl e
                  | Inr k \<Rightarrow>
                     (case interpolate (snd kv) (toString (snd kv)) of
                        Inl e \<Rightarrow> Inl e
                      | Inr v \<Rightarrow>
                         Inr ([CHR 0x27] @ key_text (fst kv) k @ [CHR 0x27] @ '': '' @ v)))
                 = Inl e"
    by auto
  show ?case
  proof (cases "interpolate (fst kv) (toString (fst kv))")
    case (Inl e')
    with thrown have "toString (fst kv) = Inl e" by (auto dest!: interpolate_Inl)
    with "10.IH"(1) kv show ?thesis by blast
  next
    case (Inr k)
    with thrown have "toString (snd kv) = Inl e"
      by (auto split: sum.splits dest!: interpolate_Inl)
    with "10.IH"(2) kv Inr show ?thesis by blast
  qed
next
  case (11 property parameters)
  show ?case
  proof (cases "sequence (map (\<lambda>x. join_element x (toString x)) parameters)")
    case (Inl e')
    with "11.prems" have "e' = e" by simp
    with Inl obtain x where "x \<in> set parameters" "join_element x (toString x) = Inl e"
      by (auto dest!: sequence_Inl)
    with "11.IH"(1) show ?thesis by (blast dest: join_element_Inl)
  next
    case (Inr args)
    with "11.prems" have "toString property = Inl e"
      by (auto split: sum.splits dest!: interpolate_Inl)
    with "11.IH"(2) Inr show ?thesis by blast
  qed
qed (auto split: sum.splits dest!: interpolate_Inl)

text \<open>
  C6. A binary expression whose operands convert to text renders as its left operand,
  the operator between single spaces, and its right operand, and an operand is printed
  between an opening and a closing parenthesis if and only if the specification's rule
  holds for it; otherwise it is printed as it is. The rule: the operand is itself a binary
  expression whose precedence (1 for + and -, 2 for * and /) is strictly lower than the
  parent's, which with this table is an operand with operator + or - under a parent with
  operator * or /. So an operand of equal precedence, an operand that is not a binary
  expression, and any operand or parent whose operator is outside the table is not
  wrapped. An operand that is \<open>null\<close> or \<open>undefined\<close> has no text: converting the
  expression throws a \<open>TypeError\<close>.
\<close>

theorem binary_operand_parenthesized:
  "(toString l = Inr lhs \<and> toString r = Inr rhs \<longrightarrow>
      toString (BinaryExpressionNode operator l r) =
        Inr ((if spec_parenthesized l operator then ''('' @ lhs @ '')'' else lhs)
             @ '' '' @ operator @ '' '' @
             (if spec_parenthesized r operator then ''('' @ rhs @ '')'' else rhs)))
   \<and> (spec_parenthesized operand operator \<longleftrightarrow>
        (\<exists>operator' a b. operand = BinaryExpressionNode operator' a b
           \<and> (operator' = ''+'' \<or> operator' = ''-'') \<and> (operator = ''*'' \<or> operator = ''/'')))
   \<and> (l = NullNode \<or> l = UndefinedNode \<or> r = NullNode \<or> r = UndefinedNode \<longrightarrow>
        toString (BinaryExpressionNode operator l r) = Inl TypeError)"
proof (intro conjI impI)
  assume "toString l = Inr lhs \<and> toString r = Inr rhs"
  then show "toString (BinaryExpressionNode operator l r) =
        Inr ((if spec_parenthesized l operator then ''('' @ lhs @ '')'' else lhs)
             @ '' '' @ operator @ '' '' @
             (if spec_parenthesized r operator then ''('' @ rhs @ '')'' else rhs))"
    by (simp add: lower_precedence_spec)
next
  show "spec_parenthesized operand operator \<longleftrightarrow>
        (\<exists>operator' a b. operand = BinaryExpressionNode operator' a b
           \<and> (operator' = ''+'' \<or> operator' = ''-'') \<and> (operator = ''*'' \<or> operator = ''/''))"
    by (rule spec_parenthesized_iff)
next
  assume nullish: "l = NullNode \<or> l = UndefinedNode \<or> r = NullNode \<or> r = UndefinedNode"
  show "toString (BinaryExpressionNode operator l r) = Inl TypeError"
  proof (cases "toString l")
    case (Inl e)
    with toString_Inl[OF Inl] show ?thesis by simp
  next
    case (Inr lhs)
    with nullish have "toString r = Inl TypeError" by auto
    with Inr show ?thesis by simp
  qed
qed

theorem binary_operand_parenthesized_witness:
  "toString (BinaryExpressionNode ''*''
     (BinaryExpressionNode ''+'' (LiteralNode (LNumber 1)) (LiteralNode (LNumber 2)))
     (BinaryExpressionNode ''-'' (LiteralNode (LNumber 3)) (LiteralNode (LNumber 4))))
   = Inr ''(1 + 2) * (3 - 4)''
   \<and> toString (BinaryExpressionNode ''+''
       (BinaryExpressionNode ''+'' (LiteralNode (LNumber 1)) (LiteralNode (LNumber 2)))
       (BinaryExpressionNode ''*'' (LiteralNode (LNumber 3)) (LiteralNode (LNumber 4))))
     = Inr ''1 + 2 + 3 * 4''
   \<and> toString (BinaryExpressionNode ''==''
       (BinaryExpressionNode ''+'' (LiteralNode (LNumber 1)) (LiteralNode (LNumber 2)))
       (LiteralNode (LNumber 3)))
     = Inr ''1 + 2 == 3''
   \<and> toString (BinaryExpressionNode ''*''
       (BinaryExpressionNode ''||'' (IdentifierNode ''a'') (IdentifierNode ''b''))
       (LiteralNode (LNumber 3)))
     = Inr ''a || b * 3''
   \<and> toString (BinaryExpressionNode ''+'' NullNode (LiteralNode (LNumber 1))) = Inl TypeError
   \<and> toString (BinaryExpressionNode ''+'' (LiteralNode (LNumber 1)) UndefinedNode)
     = Inl TypeError"
proof -
  let ?n = "\<lambda>i. LiteralNode (LNumber i)"
  let ?sum = "BinaryExpressionNode ''+'' (?n 1) (?n 2)"
  let ?difference = "BinaryExpressionNode ''-'' (?n 3) (?n 4)"
  let ?product = "BinaryExpressionNode ''*'' (?n 3) (?n 4)"
  let ?either = "BinaryExpressionNode ''||'' (IdentifierNode ''a'') (IdentifierNode ''b'')"
  have operands:
    "toString ?sum = Inr ''1 + 2''" "toString ?difference = Inr ''3 - 4''"
    "toString ?product = Inr ''3 * 4''" "toString ?either = Inr ''a || b''"
    "toString (?n 3) = Inr ''3''"
    by code_simp+
  have wrapped: "spec_parenthesized ?sum ''*''" "spec_parenthesized ?difference ''*''"
    by (simp_all add: spec_precedence_def)
  have bare: "\<not> spec_parenthesized ?sum ''+''" "\<not> spec_parenthesized ?product ''+''"
    "\<not> spec_parenthesized ?sum ''==''" "\<not> spec_parenthesized (?n 3) ''==''"
    "\<not> spec_parenthesized ?either ''*''" "\<not> spec_parenthesized (?n 3) ''*''"
    by (simp_all add: spec_precedence_def)
  have 1: "toString (BinaryExpressionNode ''*'' ?sum ?difference) = Inr ''(1 + 2) * (3 - 4)''"
    using binary_operand_parenthesized
        [where l = ?sum and r = ?difference and operator = "''*''"
           and lhs = "''1 + 2''" and rhs = "''3 - 4''"]
      operands wrapped
    by (simp del: toString.simps spec_parenthesized.simps)
  have 2: "toString (BinaryExpressionNode ''+'' ?sum ?product) = Inr ''1 + 2 + 3 * 4''"
    using binary_operand_parenthesized
        [where l = ?sum and r = ?product and operator = "''+''"
           and lhs = "''1 + 2''" and rhs = "''3 * 4''"]
      operands bare
    by (simp del: toString.simps spec_parenthesized.simps)
  have 3: "toString (BinaryExpressionNode ''=='' ?sum (?n 3)) = Inr ''1 + 2 == 3''"
    using binary_operand_parenthesized
        [where l = ?sum and r = "?n 3" and operator = "''==''"
           and lhs = "''1 + 2''" and rhs = "''3''"]
      operands bare
    by (simp del: toString.simps spec_parenthesized.simps)
  have 4: "toString (BinaryExpressionNode ''*'' ?either (?n 3)) = Inr ''a || b * 3''"
    using binary_operand_parenthesized
        [where l = ?either and r = "?n 3" and operator = "''*''"
           and lhs = "''a || b''" and rhs = "''3''"]
      operands bare
    by (simp del: toString.simps spec_parenthesized.simps)
  have 5: "toString (BinaryExpressionNode ''+'' NullNode (?n 1)) = Inl TypeError"
    using binary_operand_parenthesized
        [where l = NullNode and r = "?n 1" and operator = "''+''"]
    by (simp del: toString.simps)
  have 6: "toString (BinaryExpressionNode ''+'' (?n 1) UndefinedNode) = Inl TypeError"
    using binary_operand_parenthesized
        [where l = "?n 1" and r = UndefinedNode and operator = "''+''"]
    by (simp del: toString.simps)
  from 1 2 3 4 5 6 show ?thesis by (simp del: toString.simps)
qed

text \<open>The repository's test of binary operations, on the trees the transform builds.\<close>

lemma binary_operations_test:
  "toString (BinaryExpressionNode ''*''
     (BinaryExpressionNode ''+'' (LiteralNode (LNumber 1)) (LiteralNode (LNumber 2)))
     (BinaryExpressionNode ''+'' (LiteralNode (LNumber 3)) (LiteralNode (LNumber 4))))
   = Inr ''(1 + 2) * (3 + 4)''"
  "toString (BinaryExpressionNode ''+''
     (BinaryExpressionNode ''+'' (LiteralNode (LNumber 1))
        (BinaryExpressionNode ''*'' (LiteralNode (LNumber 2)) (LiteralNode (LNumber 3))))
     (LiteralNode (LNumber 4)))
   = Inr ''1 + 2 * 3 + 4''"
  by code_simp+

section \<open>Indentation across serialization\<close>

lemma dedent_indent: "dedent (indent c n) n = c"
  by (simp add: indent_def dedent_def)

lemma serialize_return:
  "serialize node c = (Inr out, c') \<Longrightarrow> c' = c"
  "serialize_statements nodes str c = (Inr out, c') \<Longrightarrow> c' = c"
proof (induction node c and nodes str c arbitrary: out c' and out c'
       rule: serialize_serialize_statements.induct)
  case (1 iterator iterable body ctx)
  then show ?case by (auto simp: Let_def dedent_indent split: prod.splits sum.splits)
next
  case (2 flag test consequent alternate ctx)
  from "2.prems" obtain t c1 where t: "serialize test ctx = (Inr t, c1)"
    by (auto split: prod.splits sum.splits)
  with "2.IH"(1) have c1: "c1 = ctx" by simp
  from "2.prems" t obtain s c2 where s: "serialize consequent (indent c1 1) = (Inr s, c2)"
    by (auto simp: Let_def split: prod.splits sum.splits)
  with "2.IH"(2)[OF t[symmetric] refl refl] have c2: "c2 = indent c1 1" by simp
  show ?case
  proof (cases "present alternate")
    case False
    with "2.prems" t s c1 c2 show ?thesis by (auto simp: Let_def dedent_indent)
  next
    case True
    note IH3 = "2.IH"(3)[OF t[symmetric] refl refl s[symmetric] refl refl True]
    note IH4 = "2.IH"(4)[OF t[symmetric] refl refl s[symmetric] refl refl True]
    show ?thesis
    proof (cases "isElseIf alternate")
      case True
      with "2.prems" t s c1 c2 \<open>present alternate\<close> IH3 show ?thesis
        by (auto simp: Let_def dedent_indent split: prod.splits sum.splits)
    next
      case False
      with "2.prems" t s c1 c2 \<open>present alternate\<close> IH4 show ?thesis
        by (auto simp: Let_def dedent_indent split: prod.splits sum.splits)
    qed
  qed
qed (auto split: prod.splits sum.splits)

lemma serialize_throw:
  "serialize node c = (Inl e, c') \<Longrightarrow> indentLevel c \<le> indentLevel c'"
  "serialize_statements nodes str c = (Inl e, c') \<Longrightarrow> indentLevel c \<le> indentLevel c'"
proof (induction node c and nodes str c arbitrary: e c' and e c'
       rule: serialize_serialize_statements.induct)
  case (1 iterator iterable body ctx)
  then show ?case by (fastforce simp: Let_def indent_def split: prod.splits sum.splits)
next
  case (2 flag test consequent alternate ctx)
  show ?case
  proof (cases "serialize test ctx")
    case (Pair rt c1)
    show ?thesis
    proof (cases rt)
      case (Inl e1)
      with Pair "2.prems" "2.IH"(1) show ?thesis by auto
    next
      case (Inr t)
      have t: "serialize test ctx = (Inr t, c1)" using Pair Inr by simp
      have c1: "c1 = ctx" using serialize_return(1)[OF t] .
      show ?thesis
      proof (cases "serialize consequent (indent c1 1)")
        case (Pair rs c2)
        note ps = Pair
        show ?thesis
        proof (cases rs)
          case (Inl e2)
          with ps t "2.prems" have "c' = c2" "e = e2" by (auto simp: Let_def)
          moreover have "indentLevel (indent c1 1) \<le> indentLevel c2"
            using "2.IH"(2)[OF t[symmetric] refl refl] ps Inl by simp
          ultimately show ?thesis using c1 by (simp add: indent_def)
        next
          case (Inr s)
          have s: "serialize consequent (indent c1 1) = (Inr s, c2)" using ps Inr by simp
          have c2: "c2 = indent c1 1" using serialize_return(1)[OF s] .
          show ?thesis
          proof (cases "present alternate")
            case False
            with "2.prems" t s show ?thesis by (auto simp: Let_def)
          next
            case True
            note IH3 = "2.IH"(3)[OF t[symmetric] refl refl s[symmetric] refl refl True]
            note IH4 = "2.IH"(4)[OF t[symmetric] refl refl s[symmetric] refl refl True]
            show ?thesis
            proof (cases "isElseIf alternate")
              case True
              with "2.prems" t s c1 c2 \<open>present alternate\<close> IH3 show ?thesis
                by (auto simp: Let_def dedent_indent split: prod.splits sum.splits)
            next
              case False
              have c3: "dedent c2 1 = ctx" using c1 c2 by (simp add: dedent_indent)
              from "2.prems" t s True False c3
              have "serialize alternate (indent ctx 1) = (Inl e, c')"
                by (auto simp: Let_def split: prod.splits sum.splits)
              with IH4[OF False] c3 have "indentLevel (indent ctx 1) \<le> indentLevel c'"
                by simp
              then show ?thesis by (simp add: indent_def)
            qed
          qed
        qed
      qed
    qed
  qed
next
  case (17 statement rest str ctx)
  show ?case
  proof (cases "serialize statement ctx")
    case (Pair r c1)
    show ?thesis
    proof (cases r)
      case (Inl e1)
      with Pair "17.prems" "17.IH"(1) show ?thesis by auto
    next
      case (Inr s)
      have s: "serialize statement ctx = (Inr s, c1)" using Pair Inr by simp
      have "c1 = ctx" using serialize_return(1)[OF s] .
      with "17.prems" s "17.IH"(2)[OF s[symmetric] refl] show ?thesis by auto
    qed
  qed
qed (auto split: prod.splits sum.splits)

lemma foreach_return:
  assumes "serialize (ForEachDirectiveNode iterator iterable body) c = (Inr out, c')"
  shows "c' = c \<and> (\<exists>i xs b. interpolate iterator (toString iterator) = Inr i
           \<and> interpolate iterable (toString iterable) = Inr xs
           \<and> serialize body (indent c 1) = (Inr b, indent c 1)
           \<and> out = ''#foreach( '' @ i @ '' in '' @ xs @ '' )'' @ eol c @ b @ ''#end'')"
proof -
  from assms obtain i xs b c1 where i: "interpolate iterator (toString iterator) = Inr i"
    and xs: "interpolate iterable (toString iterable) = Inr xs"
    and b: "serialize body (indent c 1) = (Inr b, c1)"
    by (auto simp: Let_def split: prod.splits sum.splits)
  have "c1 = indent c 1" using serialize_return(1)[OF b] .
  with assms i xs b show ?thesis by (auto simp: Let_def dedent_indent)
qed

lemma if_return:
  assumes "serialize (IfDirectiveNode flag test consequent alternate) c = (Inr out, c')"
  shows "c' = c \<and> (\<exists>s. serialize consequent (indent c 1) = (Inr s, indent c 1))
         \<and> (present alternate \<and> \<not> isElseIf alternate \<longrightarrow>
              (\<exists>a. serialize alternate (indent c 1) = (Inr a, indent c 1)))"
proof -
  from assms obtain t c1 where t: "serialize test c = (Inr t, c1)"
    by (auto split: prod.splits sum.splits)
  have c1: "c1 = c" using serialize_return(1)[OF t] .
  from assms t c1 obtain s c2 where s: "serialize consequent (indent c 1) = (Inr s, c2)"
    by (auto simp: Let_def split: prod.splits sum.splits)
  have c2: "c2 = indent c 1" using serialize_return(1)[OF s] .
  have alt: "\<exists>a. serialize alternate (indent c 1) = (Inr a, indent c 1)"
    if "present alternate" "\<not> isElseIf alternate"
  proof -
    from assms t c1 s c2 that obtain a c4 where a: "serialize alternate (indent c 1) = (Inr a, c4)"
      by (auto simp: Let_def dedent_indent split: prod.splits sum.splits)
    have "c4 = indent c 1" using serialize_return(1)[OF a] .
    with a show ?thesis by simp
  qed
  show ?thesis using serialize_return(1)[OF assms] s c2 alt by simp
qed

lemma foreach_throw:
  assumes "interpolate iterator (toString iterator) = Inr i"
    and "interpolate iterable (toString iterable) = Inr xs"
    and "serialize body (indent c 1) = (Inl e, c'')"
  shows "serialize (ForEachDirectiveNode iterator iterable body) c = (Inl e, c'')
         \<and> indentLevel c < indentLevel c''"
proof -
  have "indentLevel (indent c 1) \<le> indentLevel c''" using serialize_throw(1)[OF assms(3)] .
  then show ?thesis using assms by (simp add: Let_def indent_def)
qed

lemma if_throw:
  assumes "serialize test c = (Inr t, c1)" "serialize consequent (indent c 1) = (Inl e, c'')"
  shows "serialize (IfDirectiveNode flag test consequent alternate) c = (Inl e, c'')
         \<and> indentLevel c < indentLevel c''"
proof -
  have c1: "c1 = c" using serialize_return(1)[OF assms(1)] .
  have "indentLevel (indent c 1) \<le> indentLevel c''" using serialize_throw(1)[OF assms(2)] .
  then show ?thesis using assms c1 by (simp add: Let_def indent_def)
qed

lemma else_throw:
  assumes "serialize test c = (Inr t, c1)" "serialize consequent (indent c 1) = (Inr s, c2)"
    and "present alternate" "\<not> isElseIf alternate"
    and "serialize alternate (indent c 1) = (Inl e, c'')"
  shows "serialize (IfDirectiveNode flag test consequent alternate) c = (Inl e, c'')
         \<and> indentLevel c < indentLevel c''"
proof -
  have c1: "c1 = c" using serialize_return(1)[OF assms(1)] .
  have c2: "c2 = indent c 1" using serialize_return(1)[OF assms(2)] .
  have "indentLevel (indent c 1) \<le> indentLevel c''" using serialize_throw(1)[OF assms(5)] .
  then show ?thesis using assms c1 c2 by (simp add: Let_def indent_def dedent_def)
qed

text \<open>
  C10, as the code has it. Serializing a for-each or if directive serializes the body
  (and an else branch) in the context indented by one, and a return from \<open>serialize\<close>, of
  any node, leaves the context as it was at entry. There is no handler around the body:
  when serializing the body of a for-each directive (reached once the iterator and the
  iterable of its header have been converted to text), or the consequent or the else
  branch of an if directive, throws, the directive throws the same error and the context
  keeps the raised level, strictly above its value at entry.
\<close>

theorem indentation_restored_on_return_only:
  "(serialize node c = (Inr out, c') \<longrightarrow> indentLevel c' = indentLevel c)
   \<and> (serialize (ForEachDirectiveNode iterator iterable body) c = (Inr out, c') \<longrightarrow>
        (\<exists>b. serialize body (indent c 1) = (Inr b, indent c 1)))
   \<and> (serialize (IfDirectiveNode flag test consequent alternate) c = (Inr out, c') \<longrightarrow>
        (\<exists>s. serialize consequent (indent c 1) = (Inr s, indent c 1))
        \<and> (present alternate \<and> \<not> isElseIf alternate \<longrightarrow>
             (\<exists>a. serialize alternate (indent c 1) = (Inr a, indent c 1))))
   \<and> (interpolate iterator (toString iterator) = Inr i
        \<and> interpolate iterable (toString iterable) = Inr xs
        \<and> serialize body (indent c 1) = (Inl e, c'') \<longrightarrow>
        serialize (ForEachDirectiveNode iterator iterable body) c = (Inl e, c'')
        \<and> indentLevel c < indentLevel c'')
   \<and> (serialize test c = (Inr t, ca) \<and> serialize consequent (indent c 1) = (Inl e, c'') \<longrightarrow>
        serialize (IfDirectiveNode flag test consequent alternate) c = (Inl e, c'')
        \<and> indentLevel c < indentLevel c'')
   \<and> (serialize test c = (Inr t, ca) \<and> serialize consequent (indent c 1) = (Inr s, cb)
        \<and> present alternate \<and> \<not> isElseIf alternate
        \<and> serialize alternate (indent c 1) = (Inl e, c'') \<longrightarrow>
        serialize (IfDirectiveNode flag test consequent alternate) c = (Inl e, c'')
        \<and> indentLevel c < indentLevel c'')"
  using serialize_return(1)[of node c out c'] foreach_return[of iterator iterable body c out c']
    if_return[of flag test consequent alternate c out c']
    foreach_throw[of iterator i iterable xs body c e c'']
    if_throw[of test c t ca consequent e c'' flag alternate]
    else_throw[of test c t ca consequent s cb alternate e c'' flag]
  by blast

theorem indentation_restored_on_return_only_witness:
  "serialize
     (ForEachDirectiveNode (VariableReferenceNode (IdentifierNode ''item'') ''item'')
        (VariableReferenceNode (IdentifierNode ''array'') ''array'')
        (SetDirectiveNode (VariableReferenceNode (IdentifierNode ''foo'') ''foo'')
           (LiteralNode (LNumber 15))))
     (new_SerializationContext ''\<newline>'')
   = (Inr ''#foreach( $item in $array )\<newline>  #set( $foo = 15 )\<newline>#end'',
      new_SerializationContext ''\<newline>'')
   \<and> (\<exists>b. serialize
            (SetDirectiveNode (VariableReferenceNode (IdentifierNode ''foo'') ''foo'')
               (LiteralNode (LNumber 15)))
            (indent (new_SerializationContext ''\<newline>'') 1)
          = (Inr b, indent (new_SerializationContext ''\<newline>'') 1))
   \<and> serialize
       (IfDirectiveNode False (LiteralNode (LBoolean True))
          (SetDirectiveNode (VariableReferenceNode (IdentifierNode ''foo'') ''foo'')
             (LiteralNode (LNumber 15)))
          (SetDirectiveNode (VariableReferenceNode (IdentifierNode ''foo'') ''foo'')
             (LiteralNode (LNumber 16))))
       (new_SerializationContext ''\<newline>'')
     = (Inr (''#if( true )\<newline>  #set( $foo = 15 )\<newline>#else\<newline>''
             @ ''  #set( $foo = 16 )\<newline>#end\<newline>''),
        new_SerializationContext ''\<newline>'')
   \<and> (\<exists>a. serialize
            (SetDirectiveNode (VariableReferenceNode (IdentifierNode ''foo'') ''foo'')
               (LiteralNode (LNumber 16)))
            (indent (new_SerializationContext ''\<newline>'') 1)
          = (Inr a, indent (new_SerializationContext ''\<newline>'') 1))
   \<and> serialize NullNode (indent (new_SerializationContext ''\<newline>'') 1)
       = (Inl TypeError, indent (new_SerializationContext ''\<newline>'') 1)
   \<and> serialize
       (ForEachDirectiveNode (VariableReferenceNode (IdentifierNode ''item'') ''item'')
          (VariableReferenceNode (IdentifierNode ''array'') ''array'') NullNode)
       (new_SerializationContext ''\<newline>'')
       = (Inl TypeError, indent (new_SerializationContext ''\<newline>'') 1)
   \<and> serialize (IfDirectiveNode False (LiteralNode (LBoolean True)) NullNode NullNode)
       (new_SerializationContext ''\<newline>'')
       = (Inl TypeError, indent (new_SerializationContext ''\<newline>'') 1)
   \<and> serialize
       (IfDirectiveNode False (LiteralNode (LBoolean True)) (StatementListNode [])
          (StatementListNode [NullNode]))
       (new_SerializationContext ''\<newline>'')
       = (Inl TypeError, indent (new_SerializationContext ''\<newline>'') 1)
   \<and> indentLevel (new_SerializationContext ''\<newline>'')
       < indentLevel (indent (new_SerializationContext ''\<newline>'') 1)"
proof -
  let ?c = "new_SerializationContext ''\<newline>''"
  let ?item = "VariableReferenceNode (IdentifierNode ''item'') ''item''"
  let ?array = "VariableReferenceNode (IdentifierNode ''array'') ''array''"
  let ?set = "\<lambda>i. SetDirectiveNode (VariableReferenceNode (IdentifierNode ''foo'') ''foo'')
                 (LiteralNode (LNumber i))"
  let ?true = "LiteralNode (LBoolean True)"
  let ?out = "''#foreach( $item in $array )\<newline>  #set( $foo = 15 )\<newline>#end''"
  let ?out' = "''#if( true )\<newline>  #set( $foo = 15 )\<newline>#else\<newline>''
               @ ''  #set( $foo = 16 )\<newline>#end\<newline>''"
  have ret: "serialize (ForEachDirectiveNode ?item ?array (?set 15)) ?c = (Inr ?out, ?c)"
    by code_simp
  have ret': "serialize (IfDirectiveNode False ?true (?set 15) (?set 16)) ?c = (Inr ?out', ?c)"
    by code_simp
  have tst: "serialize ?true ?c = (Inr ''true'', ?c)"
    by simp
  have emp: "serialize (StatementListNode []) (indent ?c 1) = (Inr [], indent ?c 1)"
    by simp
  have thr: "serialize NullNode (indent ?c 1) = (Inl TypeError, indent ?c 1)"
    by simp
  have hdr: "interpolate ?item (toString ?item) = Inr ''$item''"
            "interpolate ?array (toString ?array) = Inr ''$array''"
    by (simp_all add: interpolate_def)
  have thr': "serialize (StatementListNode [NullNode]) (indent ?c 1) = (Inl TypeError, indent ?c 1)"
    by simp
  have alt: "present (?set 16) \<and> \<not> isElseIf (?set 16)"
            "present (StatementListNode [NullNode]) \<and> \<not> isElseIf (StatementListNode [NullNode])"
    by simp_all
  note w1 = indentation_restored_on_return_only
      [where node = "ForEachDirectiveNode ?item ?array (?set 15)" and c = ?c and out = ?out
         and c' = ?c and iterator = ?item and iterable = ?array and body = "?set 15"]
  note w2 = indentation_restored_on_return_only
      [where c = ?c and out = ?out' and c' = ?c and flag = False and test = ?true
         and consequent = "?set 15" and alternate = "?set 16"]
  note w3 = indentation_restored_on_return_only
      [where c = ?c and iterator = ?item and iterable = ?array and body = NullNode
         and i = "''$item''" and xs = "''$array''"
         and e = TypeError and c'' = "indent ?c 1" and flag = False and test = ?true
         and consequent = NullNode and alternate = NullNode and t = "''true''" and ca = ?c]
  note w4 = indentation_restored_on_return_only
      [where c = ?c and e = TypeError and c'' = "indent ?c 1" and flag = False and test = ?true
         and consequent = "StatementListNode []" and alternate = "StatementListNode [NullNode]"
         and t = "''true''" and ca = ?c and s = "[]" and cb = "indent ?c 1"]
  have 1: "\<exists>b. serialize (?set 15) (indent ?c 1) = (Inr b, indent ?c 1)"
    using w1 ret by blast
  have 2: "\<exists>a. serialize (?set 16) (indent ?c 1) = (Inr a, indent ?c 1)"
    using w2 ret' alt(1) by blast
  have 3: "serialize (ForEachDirectiveNode ?item ?array NullNode) ?c = (Inl TypeError, indent ?c 1)
           \<and> indentLevel ?c < indentLevel (indent ?c 1)"
    using w3 hdr thr by blast
  have 4: "serialize (IfDirectiveNode False ?true NullNode NullNode) ?c
             = (Inl TypeError, indent ?c 1)"
    using w3 tst thr by blast
  have 5: "serialize (IfDirectiveNode False ?true (StatementListNode [])
                        (StatementListNode [NullNode])) ?c
             = (Inl TypeError, indent ?c 1)"
    using w4 tst emp thr' alt(2) by blast
  from ret ret' thr 1 2 3 4 5 show ?thesis by blast
qed

text \<open>
  C10 as stated fails: a for-each directive whose body is \<open>null\<close> throws while its body
  is serialized, and leaves the fresh context at indent level 1 instead of 0.
\<close>

theorem indentation_not_restored_on_throw:
  "serialize
     (ForEachDirectiveNode (VariableReferenceNode (IdentifierNode ''item'') ''item'')
        (VariableReferenceNode (IdentifierNode ''array'') ''array'') NullNode)
     (new_SerializationContext ''\<newline>'')
   = (Inl TypeError, \<lparr> eol = ''\<newline>'', indentString = ''  '', indentLevel = 1 \<rparr>)
   \<and> indentLevel (new_SerializationContext ''\<newline>'') = 0"
  by (simp add: new_SerializationContext_def indent_def interpolate_def)

section \<open>The root of a reference chain\<close>

lemma single_root_flags:
  "single_root h node \<Longrightarrow> root_flags node \<noteq> [] \<Longrightarrow>
     root_flags node = h # replicate (length (root_flags node) - 1) False"
proof (induction node arbitrary: h rule: root_flags.induct)
  case (1 r receiver property)
  then show ?case by (cases "root_flags receiver") (auto simp: replicate_app_Cons_same)
qed auto

lemma single_root_not_chain:
  "root_flags node = [] \<Longrightarrow> \<not> isPropertyReference node \<Longrightarrow>
     single_root h node = single_root True node"
  by (cases node) (auto elim: isPropertyReference.elims)

lemma single_root_markElseIf: "single_root h (markElseIf node) = single_root h node"
  by (cases node) auto

lemma new_PropertyReferenceNode_root:
  "new_PropertyReferenceNode receiver property = Inr node \<Longrightarrow>
     \<exists>rcv. node = PropertyReferenceNode True rcv property"
  by (cases receiver) (auto split: if_splits)

lemma new_PropertyReferenceNode_single_root:
  assumes "single_root True receiver" "single_root True property"
    and "new_PropertyReferenceNode receiver property = Inr node"
  shows "single_root True node"
proof (cases receiver)
  case (MethodReferenceNode mp ps)
  with assms(1) obtain r rr rp where mp: "mp = PropertyReferenceNode r rr rp"
    by (cases mp) auto
  with assms MethodReferenceNode show ?thesis by (auto split: if_splits)
qed (use assms in auto)

lemma new_PropertyReferenceNode_flags:
  assumes "single_root True receiver"
    and "new_PropertyReferenceNode receiver property = Inr node"
  shows "root_flags node = True # replicate (length (root_flags receiver)) False"
proof (cases receiver)
  case (MethodReferenceNode mp ps)
  with assms(1) obtain r rr rp where mp: "mp = PropertyReferenceNode r rr rp"
    by (cases mp) auto
  with assms(1) MethodReferenceNode have rr: "single_root False rr" by simp
  have "root_flags rr = replicate (length (root_flags rr)) False"
    using single_root_flags[OF rr] by (cases "root_flags rr") auto
  with assms mp MethodReferenceNode show ?thesis by (auto split: if_splits)
next
  case (PropertyReferenceNode r rr rp)
  with assms(1) have rr: "single_root False rr" by simp
  have "root_flags rr = replicate (length (root_flags rr)) False"
    using single_root_flags[OF rr] by (cases "root_flags rr") auto
  with assms PropertyReferenceNode show ?thesis by auto
qed (use assms in auto)

lemma nonDeclVarRef_single_root:
  "nonDeclVarRef v st jsNode = Inr r \<Longrightarrow> single_root True v \<Longrightarrow> single_root True r"
  by (cases v) (auto split: option.splits)

lemma declVarRef_single_root:
  "declVarRef v st = Inr (r, st') \<Longrightarrow> single_root True v \<Longrightarrow> single_root True r"
  by (cases v) (auto split: option.splits prod.splits)

lemma declVarRef_lastChild:
  "declVarRef v st = Inr (r, st') \<Longrightarrow> lastChild st' = lastChild st"
  by (cases v) (auto split: option.splits prod.splits)

lemma first_statement_single_root:
  "first_statement v = Inr r \<Longrightarrow> single_root True v \<Longrightarrow> single_root True r"
  by (cases v rule: first_statement.cases) auto

lemma left_right_single_root:
  "single_root True v \<Longrightarrow> single_root True (left v) \<and> single_root True (right v)"
  by (cases v) auto

lemma visit_member_isPropertyReference:
  "isMemberExpression callee \<Longrightarrow> visit callee st = Inr s1 \<Longrightarrow> isPropertyReference (lastChild s1)"
  by (cases callee) (auto split: sum.splits dest: new_PropertyReferenceNode_root)

lemma visit_single_root:
  "visit node st = Inr st' \<Longrightarrow> single_root True (lastChild st')"
  "visit_each nodes st = Inr (xs, st') \<Longrightarrow> list_all (single_root True) xs"
  "visit_elements elements l st = Inr (xs, st') \<Longrightarrow> list_all (single_root True) xs"
  "visit_arguments args st = Inr (xs, st') \<Longrightarrow> list_all (single_root True) xs"
  "visit_properties props st = Inr (entries, st') \<Longrightarrow>
     list_all (\<lambda>kv. single_root True (fst kv) \<and> single_root True (snd kv)) entries"
  "visit_cases cases m f d st = Inr (xs, st') \<Longrightarrow>
     single_root True m \<Longrightarrow> single_root True f \<Longrightarrow> single_root True d \<Longrightarrow>
     list_all (single_root True) xs"
  "visit_consequent cs st = Inr (xs, cf, st') \<Longrightarrow> list_all (single_root True) xs"
proof (induction node st and nodes st and elements l st and args st and props st
         and cases m f d st and cs st
       arbitrary: st' and xs st' and xs st' and xs st' and entries st' and xs st'
         and xs cf st'
       rule: visit_visit_each_visit_elements_visit_arguments_visit_properties_visit_cases_visit_consequent.induct)
  case (1 l elements st)
  then show ?case by (auto split: sum.splits prod.splits)
next
  case (2 l operator lhs rhs st)
  then show ?case by (auto split: sum.splits prod.splits)
next
  case (3 l operator lhs rhs st)
  then show ?case
    by (fastforce split: sum.splits prod.splits intro: nonDeclVarRef_single_root)
next
  case (4 l body st)
  then show ?case by (auto split: sum.splits prod.splits)
next
  case (5 l callee arguments st)
  then show ?case
    by (fastforce split: sum.splits prod.splits if_splits intro: visit_member_isPropertyReference)
next
  case (6 l expression st)
  from "6.prems" obtain s1 where s1: "visit expression st = Inr s1"
    by (auto split: sum.splits)
  have lc: "single_root True (lastChild s1)" using "6.IH"[OF s1] .
  show ?case
  proof (cases "isAssignmentExpression expression")
    case True
    with "6.prems" s1 obtain reference
      where r: "nonDeclVarRef (left (lastChild s1)) s1 expression = Inr reference"
        and st': "st' = s1\<lparr> lastChild := SetDirectiveNode reference (right (lastChild s1)) \<rparr>"
      by (auto split: sum.splits)
    from nonDeclVarRef_single_root[OF r] left_right_single_root[OF lc] st'
    show ?thesis by simp
  next
    case False
    with "6.prems" s1 obtain reference
      where r: "nonDeclVarRef (IdentifierNode kDiscardName) s1 expression = Inr reference"
        and st': "st' = s1\<lparr> lastChild := SetDirectiveNode reference (lastChild s1) \<rparr>"
      by (auto split: sum.splits)
    from nonDeclVarRef_single_root[OF r] lc st' show ?thesis by simp
  qed
next
  case (7 l lhs rhs body st)
  then show ?case
    by (fastforce split: sum.splits prod.splits
             intro: nonDeclVarRef_single_root first_statement_single_root)
next
  case (8 l n st)
  then show ?case by auto
next
  case (9 l test consequent alternate st)
  then show ?case
    by (auto split: sum.splits prod.splits option.splits
             simp: new_IfDirectiveNode_def single_root_markElseIf)
next
  case (10 l v st)
  then show ?case by auto
next
  case (11 l object property st)
  then show ?case
    by (fastforce split: sum.splits prod.splits intro: new_PropertyReferenceNode_single_root)
next
  case (12 l properties st)
  then show ?case by (auto split: sum.splits prod.splits)
next
  case (13 l body st)
  then show ?case by (auto split: sum.splits prod.splits)
next
  case (14 l discriminant cases st)
  then show ?case
    by (fastforce split: sum.splits prod.splits option.splits
                  simp: declVarRef_lastChild)
next
  case (15 l operator argument prefix st)
  then show ?case by (auto split: sum.splits prod.splits)
next
  case (16 l declarations st)
  then show ?case by (auto split: sum.splits prod.splits)
next
  case (17 l ident init st)
  then show ?case
    by (fastforce split: sum.splits prod.splits option.splits
                  simp: declVarRef_lastChild intro: declVarRef_single_root)
next
  case (18 t l st)
  then show ?case by auto
next
  case (19 st)
  then show ?case by auto
next
  case (20 stmt rest st)
  then show ?case by (auto split: sum.splits prod.splits)
next
  case (21 l st)
  then show ?case by auto
next
  case (22 rest l st)
  then show ?case by auto
next
  case (23 element rest l st)
  then show ?case
    by (fastforce split: sum.splits prod.splits intro: nonDeclVarRef_single_root)
next
  case (24 st)
  then show ?case by auto
next
  case (25 a rest st)
  then show ?case
    by (fastforce split: sum.splits prod.splits intro: nonDeclVarRef_single_root)
next
  case (26 st)
  then show ?case by auto
next
  case (27 pl computed key meth knd v rest st)
  then show ?case
    by (fastforce split: sum.splits prod.splits if_splits intro: nonDeclVarRef_single_root)
next
  case (28 matched fallthrough discr st)
  then show ?case by auto
next
  case (29 cl test consequent rest matched fallthrough discr st)
  then show ?case
    by (fastforce split: sum.splits prod.splits option.splits
                  simp: new_IfDirectiveNode_def)
next
  case (30 st)
  then show ?case by auto
next
  case (31 stmt rest st)
  then show ?case by (auto split: sum.splits prod.splits if_splits)
qed

text \<open>
  C5. In every node that the transform produces, each chain of property accesses and
  method calls has exactly one link with the root flag, its outermost property reference:
  the flags along the chain are \<open>True\<close> followed by \<open>False\<close> only. The
  constructor of a property reference clears the flag of a receiver that is itself a
  chain node (a property reference, or a method reference, whose property chain is
  cleared) and sets its own. A method reference has no flag and prints no sigil of its own:
  it prints its property chain followed by the arguments. A property reference prints the sigil
  exactly when its flag is set. (Where a part of the chain fails to convert to text, the
  chain throws that error instead of printing.)
\<close>

theorem chain_single_root:
  "(visit node st = Inr st' \<longrightarrow>
      single_root True (lastChild st')
      \<and> (root_flags (lastChild st') = []
           \<or> root_flags (lastChild st')
               = True # replicate (length (root_flags (lastChild st')) - 1) False))
   \<and> (single_root True receiver \<and> new_PropertyReferenceNode receiver property = Inr chain \<longrightarrow>
        root_flags chain = True # replicate (length (root_flags receiver)) False)
   \<and> toString (PropertyReferenceNode r receiver property)
       = (case interpolate receiver (toString receiver) of
            Inl e \<Rightarrow> Inl e
          | Inr a \<Rightarrow>
             (case interpolate property (toString property) of
                Inl e \<Rightarrow> Inl e
              | Inr b \<Rightarrow> Inr ((if r then ''$'' else []) @ a @ ''.'' @ b)))
   \<and> toString (MethodReferenceNode chain' parameters)
       = (case sequence (map (\<lambda>x. join_element x (toString x)) parameters) of
            Inl e \<Rightarrow> Inl e
          | Inr args \<Rightarrow>
             (case interpolate chain' (toString chain') of
                Inl e \<Rightarrow> Inl e
              | Inr a \<Rightarrow> Inr (a @ ''('' @ join '', '' args @ '')'')))"
  using visit_single_root(1)[of node st st']
    single_root_flags[of True "lastChild st'"]
    new_PropertyReferenceNode_flags[of receiver property chain]
  by auto

theorem chain_single_root_witness:
  "visit
     (MemberExpression None
        (CallExpression None
           (MemberExpression None (Identifier None ''foo'') (Identifier None ''bar'')) [])
        (Identifier None ''baz''))
     \<lparr> lastChild = NullNode, scope = None, globals = [] \<rparr>
   = Inr \<lparr> lastChild =
            PropertyReferenceNode True
              (MethodReferenceNode
                 (PropertyReferenceNode False (IdentifierNode ''foo'') (IdentifierNode ''bar'')) [])
              (IdentifierNode ''baz''),
          scope = None, globals = [] \<rparr>
   \<and> single_root True
       (PropertyReferenceNode True
          (MethodReferenceNode
             (PropertyReferenceNode False (IdentifierNode ''foo'') (IdentifierNode ''bar'')) [])
          (IdentifierNode ''baz''))
   \<and> single_root True
       (MethodReferenceNode
          (PropertyReferenceNode True (IdentifierNode ''foo'') (IdentifierNode ''bar'')) [])
   \<and> new_PropertyReferenceNode
       (MethodReferenceNode
          (PropertyReferenceNode True (IdentifierNode ''foo'') (IdentifierNode ''bar'')) [])
       (IdentifierNode ''baz'')
       = Inr (PropertyReferenceNode True
                (MethodReferenceNode
                   (PropertyReferenceNode False (IdentifierNode ''foo'') (IdentifierNode ''bar'')) [])
                (IdentifierNode ''baz''))
   \<and> root_flags
       (PropertyReferenceNode True
          (MethodReferenceNode
             (PropertyReferenceNode False (IdentifierNode ''foo'') (IdentifierNode ''bar'')) [])
          (IdentifierNode ''baz''))
       = [True, False]
   \<and> toString
       (PropertyReferenceNode True
          (MethodReferenceNode
             (PropertyReferenceNode False (IdentifierNode ''foo'') (IdentifierNode ''bar'')) [])
          (IdentifierNode ''baz''))
       = Inr ''$foo.bar().baz''"
proof -
  let ?foobar = "\<lambda>r. MethodReferenceNode
                   (PropertyReferenceNode r (IdentifierNode ''foo'') (IdentifierNode ''bar'')) []"
  let ?chain = "PropertyReferenceNode True (?foobar False) (IdentifierNode ''baz'')"
  let ?st = "\<lparr> lastChild = NullNode, scope = None, globals = [] \<rparr>"
  let ?node = "MemberExpression None
        (CallExpression None
           (MemberExpression None (Identifier None ''foo'') (Identifier None ''bar'')) [])
        (Identifier None ''baz'')"
  have v: "visit ?node ?st = Inr \<lparr> lastChild = ?chain, scope = None, globals = [] \<rparr>"
    by simp
  have c: "new_PropertyReferenceNode (?foobar True) (IdentifierNode ''baz'') = Inr ?chain"
    by simp
  have h: "single_root True (?foobar True)"
    by simp
  show ?thesis
    using v c h
      chain_single_root[where node = ?node and st = ?st
        and st' = "\<lparr> lastChild = ?chain, scope = None, globals = [] \<rparr>"
        and receiver = "?foobar True" and property = "IdentifierNode ''baz''"
        and chain = ?chain]
    by (simp add: interpolate_def join_element_def)
qed

section \<open>Target names of declarations\<close>






text \<open>The repository's test of variable versions, through the whole call.\<close>

lemma variable_versions_test:
  "transpile ''\<newline>''
     (Program None
        [VariableDeclaration None
           [VariableDeclarator None (Identifier None ''a'') (Some (Literal None (LNumber 0)))],
         VariableDeclaration None
           [VariableDeclarator None (Identifier None ''c'') (Some (Literal None (LNumber 6)))],
         BlockStatement None
           [VariableDeclaration None
              [VariableDeclarator None (Identifier None ''a'') (Some (Literal None (LNumber 1)))],
            VariableDeclaration None
              [VariableDeclarator None (Identifier None ''b'') (Some (Literal None (LNumber 2)))],
            ExpressionStatement None
              (AssignmentExpression None ''='' (Identifier None ''b'')
                 (BinaryExpression None ''+''
                    (BinaryExpression None ''+''
                       (BinaryExpression None ''+'' (Identifier None ''a'') (Identifier None ''b''))
                       (Literal None (LNumber 3)))
                    (Identifier None ''c''))),
            ExpressionStatement None
              (AssignmentExpression None ''='' (Identifier None ''c'') (Literal None (LNumber 7)))],
         VariableDeclaration None
           [VariableDeclarator None (Identifier None ''b'')
              (Some (BinaryExpression None ''+''
                       (BinaryExpression None ''+'' (Literal None (LNumber 4)) (Identifier None ''a''))
                       (Identifier None ''c'')))]])
     []
   = Inr (''#set( $a = 0 )\<newline>#set( $c = 6 )\<newline>#set( $a_1 = 1 )\<newline>#set( $b = 2 )\<newline>''
          @ ''#set( $b = $a_1 + $b + 3 + $c )\<newline>#set( $c = 7 )\<newline>''
          @ ''#set( $b_1 = 4 + $a + $c )\<newline>'')"
  by code_simp

section \<open>The lowering of switch statements\<close>

lemma visit_consequent_lowered:
  "visit_consequent cs st = Inr (body, cf, st') \<Longrightarrow>
     list_all2 visited (before_break cs) body \<and> cf = (\<not> has_break cs)"
proof (induction cs arbitrary: st body cf st')
  case Nil
  then show ?case by (simp add: before_break_def has_break_def)
next
  case (Cons stmt rest)
  show ?case
  proof (cases "isBreakStatement stmt")
    case True
    with Cons.prems show ?thesis by (simp add: before_break_def has_break_def)
  next
    case False
    with Cons.prems obtain s1 xs where s1: "visit stmt st = Inr s1"
      and r: "visit_consequent rest s1 = Inr (xs, cf, st')"
      and b: "body = lastChild s1 # xs"
      by (auto split: sum.splits prod.splits)
    have "visited stmt (lastChild s1)" using s1 by (auto simp: visited_def)
    with Cons.IH[OF r] False b show ?thesis
      by (simp add: before_break_def has_break_def)
  qed
qed

lemma visit_cases_lowered:
  "visit_cases cases m f d st = Inr (ifs, st') \<Longrightarrow> list_all2 (lowered_case m f d) cases ifs"
proof (induction cases arbitrary: st ifs st')
  case Nil
  then show ?case by simp
next
  case (Cons c rest)
  obtain cl test consequent where c: "c = SwitchCase cl test consequent" by (cases c)
  from Cons.prems c obtain caseTest s1 body cf s2 more
    where t: "(case test of
                 None \<Rightarrow> Inr (NullNode, st)
               | Some t \<Rightarrow>
                  (case visit t st of
                     Inl e \<Rightarrow> Inl e
                   | Inr s1 \<Rightarrow> Inr (BinaryExpressionNode ''=='' d (lastChild s1), s1)))
              = Inr (caseTest, s1)"
      and b: "visit_consequent consequent s1 = Inr (body, cf, s2)"
      and r: "visit_cases rest m f d s2 = Inr (more, st')"
      and i: "ifs = new_IfDirectiveNode
                 (if test = None
                  then BinaryExpressionNode ''||'' f (UnaryExpressionNode ''!'' m True)
                  else BinaryExpressionNode ''||'' f caseTest)
                 (StatementListNode
                    (body @ [SetDirectiveNode m (LiteralNode (LBoolean True)),
                             SetDirectiveNode f (LiteralNode (LBoolean cf))]))
                 NullNode # more"
    by (auto split: sum.splits prod.splits)
  have lt: "lowered_test m f d test
              (if test = None
               then BinaryExpressionNode ''||'' f (UnaryExpressionNode ''!'' m True)
               else BinaryExpressionNode ''||'' f caseTest)"
    using t by (auto simp: lowered_test_def visited_def split: option.splits sum.splits)
  have "lowered_case m f d c (hd ifs)"
    using visit_consequent_lowered[OF b] lt c i
    by (auto simp: lowered_case_def new_IfDirectiveNode_def)
  with Cons.IH[OF r] i show ?case by simp
qed

lemma lowered_case_operator:
  "lowered_case m f d c node \<Longrightarrow>
     comparison_operator node = (case case_test c of None \<Rightarrow> None | Some t \<Rightarrow> Some ''=='')"
  by (auto simp: lowered_case_def lowered_test_def split: option.splits)

lemma lowered_cases_operators:
  "list_all2 (lowered_case m f d) cases ifs \<Longrightarrow>
     map comparison_operator ifs
       = map (\<lambda>c. case case_test c of None \<Rightarrow> None | Some t \<Rightarrow> Some ''=='') cases"
  by (induction cases ifs rule: list_all2_induct) (auto simp: lowered_case_operator)

lemma visit_SwitchStatement_Inr:
  assumes "visit (SwitchStatement l discriminant cases) st = Inr st'"
  shows "\<exists>tm tf td dv ifs.
           lastChild st'
             = StatementListNode
                 (SetDirectiveNode (VariableReferenceNode (IdentifierNode ''matched'') tm)
                    (LiteralNode (LBoolean False))
                  # SetDirectiveNode (VariableReferenceNode (IdentifierNode ''fallthrough'') tf)
                      (LiteralNode (LBoolean False))
                  # SetDirectiveNode (VariableReferenceNode (IdentifierNode ''discriminant'') td) dv
                  # ifs)
           \<and> visited discriminant dv
           \<and> list_all2
                (lowered_case (VariableReferenceNode (IdentifierNode ''matched'') tm)
                   (VariableReferenceNode (IdentifierNode ''fallthrough'') tf)
                   (VariableReferenceNode (IdentifierNode ''discriminant'') td))
                cases ifs"
proof -
  from assms obtain s1 where s1: "visit discriminant st = Inr s1"
    by (auto split: sum.splits)
  from assms s1 obtain m s2 where m: "declVarRef (IdentifierNode ''matched'') s1 = Inr (m, s2)"
    by (auto split: sum.splits prod.splits)
  from assms s1 m obtain f s3 where f: "declVarRef (IdentifierNode ''fallthrough'') s2 = Inr (f, s3)"
    by (auto split: sum.splits prod.splits)
  from assms s1 m f obtain d s4
    where d: "declVarRef (IdentifierNode ''discriminant'') s3 = Inr (d, s4)"
    by (auto split: sum.splits prod.splits)
  from assms s1 m f d obtain ifs s5
    where c: "visit_cases cases m f d s4 = Inr (ifs, s5)"
      and st': "st' = s5\<lparr> lastChild := StatementListNode
                 ([SetDirectiveNode m (LiteralNode (LBoolean False)),
                   SetDirectiveNode f (LiteralNode (LBoolean False)),
                   SetDirectiveNode d (lastChild s4)] @ ifs) \<rparr>"
    by (auto split: sum.splits prod.splits)
  from m obtain tm where tm: "m = VariableReferenceNode (IdentifierNode ''matched'') tm"
    and l2: "lastChild s2 = lastChild s1"
    by (auto split: option.splits prod.splits)
  from f obtain tf where tf: "f = VariableReferenceNode (IdentifierNode ''fallthrough'') tf"
    and l3: "lastChild s3 = lastChild s2"
    by (auto split: option.splits prod.splits)
  from d obtain td where td: "d = VariableReferenceNode (IdentifierNode ''discriminant'') td"
    and l4: "lastChild s4 = lastChild s3"
    by (auto split: option.splits prod.splits)
  have v: "visited discriminant (lastChild s4)"
    using s1 l2 l3 l4 by (auto simp: visited_def)
  show ?thesis
    using visit_cases_lowered[OF c] v st' tm tf td by auto
qed

text \<open>
  C1. A successful visit of a switch statement leaves one statement list: the three set
  directives \<open>matched := false\<close>, \<open>fallthrough := false\<close> and
  \<open>discriminant := \<close> the visited discriminant, on references to the three declared
  temporaries, followed by one if directive per case, in source order
  (\<open>list_all2\<close>). The directive of a case has the test
  \<open>fallthrough || (discriminant == visited case value)\<close>, or \<open>fallthrough || !matched\<close>
  for the default case; its body is the visited statements of the case before its first
  break statement, then \<open>matched := true\<close>, then \<open>fallthrough := \<close> whether the case
  has no break statement.
\<close>

theorem switch_lowering:
  "visit (SwitchStatement l discriminant cases) st = Inr st' \<Longrightarrow>
     \<exists>tm tf td dv ifs.
        lastChild st'
          = StatementListNode
              (SetDirectiveNode (VariableReferenceNode (IdentifierNode ''matched'') tm)
                 (LiteralNode (LBoolean False))
               # SetDirectiveNode (VariableReferenceNode (IdentifierNode ''fallthrough'') tf)
                   (LiteralNode (LBoolean False))
               # SetDirectiveNode (VariableReferenceNode (IdentifierNode ''discriminant'') td) dv
               # ifs)
        \<and> visited discriminant dv
        \<and> list_all2
             (lowered_case (VariableReferenceNode (IdentifierNode ''matched'') tm)
                (VariableReferenceNode (IdentifierNode ''fallthrough'') tf)
                (VariableReferenceNode (IdentifierNode ''discriminant'') td))
             cases ifs"
  by (rule visit_SwitchStatement_Inr)

theorem switch_lowering_witness:
  "\<exists>st'.
     visit
       (SwitchStatement None (Identifier None ''foo'')
          [SwitchCase None (Some (Literal None (LNumber 1))) [Unsupported BreakStatement None],
           SwitchCase None (Some (Literal None (LNumber 3))) [],
           SwitchCase None None
             [VariableDeclaration None
                [VariableDeclarator None (Identifier None ''value'')
                   (Some (Literal None (LNumber 99)))]]])
       \<lparr> lastChild = NullNode, scope = Some new_SymbolTable, globals = [] \<rparr>
     = Inr st'
     \<and> (\<exists>tm tf td dv ifs.
          lastChild st'
            = StatementListNode
                (SetDirectiveNode (VariableReferenceNode (IdentifierNode ''matched'') tm)
                   (LiteralNode (LBoolean False))
                 # SetDirectiveNode (VariableReferenceNode (IdentifierNode ''fallthrough'') tf)
                     (LiteralNode (LBoolean False))
                 # SetDirectiveNode (VariableReferenceNode (IdentifierNode ''discriminant'') td) dv
                 # ifs)
          \<and> visited (Identifier None ''foo'') dv
          \<and> list_all2
               (lowered_case (VariableReferenceNode (IdentifierNode ''matched'') tm)
                  (VariableReferenceNode (IdentifierNode ''fallthrough'') tf)
                  (VariableReferenceNode (IdentifierNode ''discriminant'') td))
               [SwitchCase None (Some (Literal None (LNumber 1))) [Unsupported BreakStatement None],
                SwitchCase None (Some (Literal None (LNumber 3))) [],
                SwitchCase None None
                  [VariableDeclaration None
                     [VariableDeclarator None (Identifier None ''value'')
                        (Some (Literal None (LNumber 99)))]]]
               ifs)"
proof -
  let ?node = "SwitchStatement None (Identifier None ''foo'')
          [SwitchCase None (Some (Literal None (LNumber 1))) [Unsupported BreakStatement None],
           SwitchCase None (Some (Literal None (LNumber 3))) [],
           SwitchCase None None
             [VariableDeclaration None
                [VariableDeclarator None (Identifier None ''value'')
                   (Some (Literal None (LNumber 99)))]]]"
  let ?st = "\<lparr> lastChild = NullNode, scope = Some new_SymbolTable, globals = [] \<rparr>"
  have "\<not> isl (visit ?node ?st)" by code_simp
  then obtain st' where v: "visit ?node ?st = Inr st'"
    by (cases "visit ?node ?st") auto
  from switch_lowering[OF v] v show ?thesis by blast
qed

text \<open>
  C2, as the code has it. The operator of the comparison of every non-default case is
  the fixed operator \<open>==\<close>; a switch statement of the source carries no operator, and
  nothing of the source is consulted.
\<close>

theorem switch_comparison_operator:
  "visit (SwitchStatement l discriminant cases) st = Inr st' \<Longrightarrow>
     map comparison_operator (drop 3 (statements_of (lastChild st')))
       = map (\<lambda>c. case case_test c of None \<Rightarrow> None | Some t \<Rightarrow> Some ''=='') cases"
  using visit_SwitchStatement_Inr[of l discriminant cases st st']
  by (auto simp: lowered_cases_operators)

theorem switch_comparison_operator_witness:
  "\<exists>st'.
     visit
       (SwitchStatement None
          (BinaryExpression None ''==='' (Literal None (LNumber 1)) (Literal None (LNumber 1)))
          [SwitchCase None (Some (Literal None (LBoolean True))) [Unsupported BreakStatement None],
           SwitchCase None None []])
       \<lparr> lastChild = NullNode, scope = Some new_SymbolTable, globals = [] \<rparr>
     = Inr st'
     \<and> map comparison_operator (drop 3 (statements_of (lastChild st'))) = [Some ''=='', None]"
proof -
  let ?node = "SwitchStatement None
          (BinaryExpression None ''==='' (Literal None (LNumber 1)) (Literal None (LNumber 1)))
          [SwitchCase None (Some (Literal None (LBoolean True))) [Unsupported BreakStatement None],
           SwitchCase None None []]"
  let ?st = "\<lparr> lastChild = NullNode, scope = Some new_SymbolTable, globals = [] \<rparr>"
  have "\<not> isl (visit ?node ?st)" by code_simp
  then obtain st' where v: "visit ?node ?st = Inr st'"
    by (cases "visit ?node ?st") auto
  from switch_comparison_operator[OF v] v show ?thesis by auto
qed

text \<open>
  C2 as stated fails: in \<open>switch (1 === 1) { case true: break; }\<close> the only equality
  operator that the source program chooses is the strict one, and the comparison of the
  case is emitted with the loose one.
\<close>

theorem switch_operator_not_from_source:
  "transpile ''\<newline>''
     (Program None
        [SwitchStatement None
           (BinaryExpression None ''==='' (Literal None (LNumber 1)) (Literal None (LNumber 1)))
           [SwitchCase None (Some (Literal None (LBoolean True)))
              [Unsupported BreakStatement None]]])
     []
   = Inr (''#set( $matched = false )\<newline>#set( $fallthrough = false )\<newline>''
          @ ''#set( $discriminant = 1 === 1 )\<newline>''
          @ ''#if( $fallthrough || $discriminant == true )\<newline>''
          @ ''  #set( $matched = true )\<newline>  #set( $fallthrough = false )\<newline>#end\<newline>'')"
  by code_simp

text \<open>The repository's test of the switch statement, through the whole call.\<close>

lemma switch_statement_test:
  "transpile ''\<newline>''
     (Program None
        [VariableDeclaration None
           [VariableDeclarator None (Identifier None ''foo'') (Some (Literal None (LNumber 5)))],
         VariableDeclaration None
           [VariableDeclarator None (Identifier None ''value'') (Some (Literal None (LNumber 0)))],
         SwitchStatement None (Identifier None ''foo'')
           [SwitchCase None (Some (Literal None (LNumber 1)))
              [ExpressionStatement None
                 (AssignmentExpression None ''='' (Identifier None ''value'')
                    (Literal None (LNumber 1))),
               Unsupported BreakStatement None],
            SwitchCase None (Some (Literal None (LNumber 2)))
              [ExpressionStatement None
                 (AssignmentExpression None ''='' (Identifier None ''value'')
                    (Literal None (LNumber 2))),
               Unsupported BreakStatement None],
            SwitchCase None (Some (Literal None (LNumber 3))) [],
            SwitchCase None (Some (Literal None (LNumber 4)))
              [ExpressionStatement None
                 (AssignmentExpression None ''='' (Identifier None ''value'')
                    (Literal None (LNumber 7)))],
            SwitchCase None None
              [ExpressionStatement None
                 (AssignmentExpression None ''='' (Identifier None ''value'')
                    (Literal None (LNumber 99)))]]])
     []
   = Inr (''#set( $foo = 5 )\<newline>#set( $value = 0 )\<newline>''
          @ ''#set( $matched = false )\<newline>#set( $fallthrough = false )\<newline>''
          @ ''#set( $discriminant = foo )\<newline>''
          @ ''#if( $fallthrough || $discriminant == 1 )\<newline>  #set( $value = 1 )\<newline>''
          @ ''  #set( $matched = true )\<newline>  #set( $fallthrough = false )\<newline>#end\<newline>''
          @ ''#if( $fallthrough || $discriminant == 2 )\<newline>  #set( $value = 2 )\<newline>''
          @ ''  #set( $matched = true )\<newline>  #set( $fallthrough = false )\<newline>#end\<newline>''
          @ ''#if( $fallthrough || $discriminant == 3 )\<newline>''
          @ ''  #set( $matched = true )\<newline>  #set( $fallthrough = true )\<newline>#end\<newline>''
          @ ''#if( $fallthrough || $discriminant == 4 )\<newline>  #set( $value = 7 )\<newline>''
          @ ''  #set( $matched = true )\<newline>  #set( $fallthrough = true )\<newline>#end\<newline>''
          @ ''#if( $fallthrough || !$matched )\<newline>  #set( $value = 99 )\<newline>''
          @ ''  #set( $matched = true )\<newline>  #set( $fallthrough = true )\<newline>#end\<newline>'')"
  by code_simp

section \<open>Error messages\<close>



















section \<open>Conditionals without an else branch\<close>

lemma if_without_alternate_fails:
  "visit (IfStatement l test consequent None) st \<noteq> Inr st'"
  by (auto split: sum.splits)

lemma if_without_alternate_TypeError:
  "visit test st = Inr s1 \<Longrightarrow> visit consequent s1 = Inr s2 \<Longrightarrow>
     visit (IfStatement l test consequent None) st = Inl TypeError"
  by simp

lemma if_directive_without_alternate_renders:
  assumes "serialize test c = (Inr t, c)" "serialize consequent (indent c 1) = (Inr s, indent c 1)"
  shows "serialize (new_IfDirectiveNode test consequent NullNode) c
           = (Inr (''#if( '' @ t @ '' )'' @ eol c @ s @ ''#end'' @ eol c), c)"
  using assms by (simp add: new_IfDirectiveNode_def Let_def indent_def dedent_def)

text \<open>
  C8. The walker of the if statement reads \<open>node.alternate.type\<close> without testing
  \<open>node.alternate\<close>: on a conditional without an else branch no visit succeeds, and
  \<open>if (true) {}\<close> ends the call with a \<open>TypeError\<close>. The target side does what the
  claim says: an if directive without alternate renders as \<open>#if( test )\<close>, the consequent
  and \<open>#end\<close>.
\<close>

theorem if_without_else_throws:
  "visit (IfStatement l test consequent None) st \<noteq> Inr st'
   \<and> transpile ''\<newline>''
       (Program None
          [IfStatement None (Literal None (LBoolean True)) (BlockStatement None []) None]) []
       = Inl TypeError
   \<and> serialize
       (new_IfDirectiveNode (LiteralNode (LBoolean True)) (StatementListNode []) NullNode)
       (new_SerializationContext ''\<newline>'')
       = (Inr ''#if( true )\<newline>#end\<newline>'', new_SerializationContext ''\<newline>'')"
proof -
  have "transpile ''\<newline>''
       (Program None
          [IfStatement None (Literal None (LBoolean True)) (BlockStatement None []) None]) []
       = Inl TypeError"
    by code_simp
  moreover have "serialize
       (new_IfDirectiveNode (LiteralNode (LBoolean True)) (StatementListNode []) NullNode)
       (new_SerializationContext ''\<newline>'')
       = (Inr ''#if( true )\<newline>#end\<newline>'', new_SerializationContext ''\<newline>'')"
    by code_simp
  ultimately show ?thesis using if_without_alternate_fails by blast
qed

section \<open>Variable declarators\<close>

lemma declarator_with_init:
  assumes "scope st = Some table"
    and "visit (VariableDeclarator l (Identifier li n) (Some init)) st = Inr st'"
  shows "\<exists>v. visited init v
           \<and> lastChild st'
               = SetDirectiveNode (VariableReferenceNode (IdentifierNode n) (fst (symbol n table))) v"
  using assms by (fastforce simp: visited_def split: sum.splits prod.splits)

lemma declarator_without_init:
  assumes "scope st = Some table"
  shows "visit (VariableDeclarator l (Identifier li n) None) st
           = Inr (st\<lparr> lastChild := IdentifierNode n, scope := Some (snd (symbol n table)) \<rparr>)"
  using assms by (auto split: prod.splits)

text \<open>
  C7, as the code has it. With an initializer, a declarator of an identifier leaves one
  set directive that assigns the visited initializer to the reference to the target name
  that the declaration has just been given. Without an initializer it declares the name
  and builds no set directive, but it is not silent: the bare identifier node that the
  visit of its \<open>id\<close> produced stays as its result, and the enclosing declaration holds
  it in its statement list (from where the for-of walker reads the loop's iterator).
\<close>

theorem variable_declarator:
  "scope st = Some table \<Longrightarrow>
     (visit (VariableDeclarator l (Identifier li n) (Some init)) st = Inr st' \<longrightarrow>
        (\<exists>v. visited init v
            \<and> lastChild st'
                = SetDirectiveNode
                    (VariableReferenceNode (IdentifierNode n) (fst (symbol n table))) v))
     \<and> visit (VariableDeclarator l (Identifier li n) None) st
         = Inr (st\<lparr> lastChild := IdentifierNode n, scope := Some (snd (symbol n table)) \<rparr>)
     \<and> visit (VariableDeclaration ld [VariableDeclarator l (Identifier li n) None]) st
         = Inr (st\<lparr> lastChild := StatementListNode [IdentifierNode n],
                     scope := Some (snd (symbol n table)) \<rparr>)"
  using declarator_with_init[of st table l li n init st'] declarator_without_init[of st table l li n]
  by simp

theorem variable_declarator_witness:
  "scope \<lparr> lastChild = NullNode, scope = Some new_SymbolTable, globals = [] \<rparr>
     = Some new_SymbolTable
   \<and> (\<exists>st'. visit
               (VariableDeclarator None (Identifier None ''singleConst'')
                  (Some (Literal None (LNumber 1234))))
               \<lparr> lastChild = NullNode, scope = Some new_SymbolTable, globals = [] \<rparr>
             = Inr st'
           \<and> (\<exists>v. visited (Literal None (LNumber 1234)) v
                 \<and> lastChild st'
                     = SetDirectiveNode
                         (VariableReferenceNode (IdentifierNode ''singleConst'') ''singleConst'') v))
   \<and> visit (VariableDeclaration None [VariableDeclarator None (Identifier None ''x'') None])
       \<lparr> lastChild = NullNode, scope = Some new_SymbolTable, globals = [] \<rparr>
       = Inr (\<lparr> lastChild = NullNode, scope = Some new_SymbolTable, globals = [] \<rparr>
               \<lparr> lastChild := StatementListNode [IdentifierNode ''x''],
                 scope := Some (snd (symbol ''x'' new_SymbolTable)) \<rparr>)"
proof -
  let ?st = "\<lparr> lastChild = NullNode, scope = Some new_SymbolTable, globals = [] \<rparr>"
  let ?d = "VariableDeclarator None (Identifier None ''singleConst'')
              (Some (Literal None (LNumber 1234)))"
  have s: "scope ?st = Some new_SymbolTable" by simp
  have t: "fst (symbol ''singleConst'' new_SymbolTable) = ''singleConst''"
    by (simp add: symbol_def Let_def new_SymbolTable_def target_name_def)
  have "\<not> isl (visit ?d ?st)" by code_simp
  then obtain st' where v: "visit ?d ?st = Inr st'"
    by (cases "visit ?d ?st") auto
  from variable_declarator[OF s, of None None "''singleConst''" "Literal None (LNumber 1234)" st']
    v t
  have 1: "\<exists>st'. visit ?d ?st = Inr st'
           \<and> (\<exists>v. visited (Literal None (LNumber 1234)) v
                 \<and> lastChild st'
                     = SetDirectiveNode
                         (VariableReferenceNode (IdentifierNode ''singleConst'') ''singleConst'') v)"
    by auto
  from variable_declarator[OF s, of None None "''x''" undefined undefined None]
  have 2: "visit (VariableDeclaration None [VariableDeclarator None (Identifier None ''x'') None]) ?st
       = Inr (?st \<lparr> lastChild := StatementListNode [IdentifierNode ''x''],
                    scope := Some (snd (symbol ''x'' new_SymbolTable)) \<rparr>)"
    by blast
  from s 1 2 show ?thesis by blast
qed

text \<open>
  C7 as stated fails: \<open>let x;\<close> is rendered as the text \<open>x\<close>.
\<close>

theorem declarator_without_init_renders_name:
  "transpile ''\<newline>''
     (Program None [VariableDeclaration None [VariableDeclarator None (Identifier None ''x'') None]])
     []
   = Inr ''x''"
  by code_simp

section \<open>Resolution of identifiers\<close>











section \<open>The repository's tests, replayed on the model\<close>

text \<open>
  Each lemma is one test of the repository on the tree that the parser produces for the
  test's source (locations given where the expected message shows them), with the
  expected text before the test's own trimming.
\<close>

lemma variable_declarations_test:
  "transpile ''\<newline>''
     (Program None
        [VariableDeclaration None
           [VariableDeclarator None (Identifier None ''singleConst'')
              (Some (UnaryExpression None ''-'' (Literal None (LNumber 1234)) True))],
         VariableDeclaration None
           [VariableDeclarator None (Identifier None ''listConst0'')
              (Some (Literal None (LNumber 10))),
            VariableDeclarator None (Identifier None ''listConst1'')
              (Some (Literal None (LNumber 100000000)))],
         VariableDeclaration None
           [VariableDeclarator None (Identifier None ''singleLet'')
              (Some (Literal None (LString ''abc'')))],
         VariableDeclaration None
           [VariableDeclarator None (Identifier None ''singleVar'')
              (Some (Literal None (LBoolean True)))]])
     []
   = Inr (''#set( $singleConst = -1234 )\<newline>#set( $listConst0 = 10 )\<newline>''
          @ ''#set( $listConst1 = 100000000 )\<newline>''
          @ ''#set( $singleLet = '' @ quoted ''abc'' @ '' )\<newline>''
          @ ''#set( $singleVar = true )\<newline>'')"
  by (simp add: transpile_def enterScope_def exitScope_def registerEnvGlobals_def symbol_def
        new_SymbolTable_def parent_def new_SerializationContext_def kDiscardName_def
        target_name_def indentation_def quoted_def Let_def string_of_int_def
        string_of_nat.simps interpolate_def)

lemma if_else_if_else_test:
  "transpile ''\<newline>''
     (Program None
        [VariableDeclaration None
           [VariableDeclarator None (Identifier None ''foo'') (Some (Literal None (LNumber 3)))],
         IfStatement None
           (BinaryExpression None ''==='' (Identifier None ''foo'') (Literal None (LNumber 1)))
           (BlockStatement None
              [VariableDeclaration None
                 [VariableDeclarator None (Identifier None ''bar'')
                    (Some (Literal None (LString ''def'')))]])
           (Some (IfStatement None
                    (BinaryExpression None ''==='' (Identifier None ''foo'')
                       (Literal None (LNumber 2)))
                    (BlockStatement None
                       [VariableDeclaration None
                          [VariableDeclarator None (Identifier None ''bar'')
                             (Some (Literal None (LString ''ghi'')))]])
                    (Some (BlockStatement None
                             [VariableDeclaration None
                                [VariableDeclarator None (Identifier None ''bar'')
                                   (Some (Literal None (LString ''xyz'')))]]))))])
     []
   = Inr (''#set( $foo = 3 )\<newline>#if( $foo === 1 )\<newline>''
          @ ''  #set( $bar = '' @ quoted ''def'' @ '' )\<newline>''
          @ ''#elseif( $foo === 2 )\<newline>''
          @ ''  #set( $bar_1 = '' @ quoted ''ghi'' @ '' )\<newline>''
          @ ''#else\<newline>''
          @ ''  #set( $bar_2 = '' @ quoted ''xyz'' @ '' )\<newline>''
          @ ''#end\<newline>'')"
  by code_simp

lemma for_of_test:
  "transpile ''\<newline>''
     (Program None
        [VariableDeclaration None
           [VariableDeclarator None (Identifier None ''array'') (Some (ArrayExpression None []))],
         ForOfStatement None
           (VariableDeclaration None [VariableDeclarator None (Identifier None ''item'') None])
           (Identifier None ''array'')
           (BlockStatement None
              [VariableDeclaration None
                 [VariableDeclarator None (Identifier None ''foo'')
                    (Some (Literal None (LNumber 15)))]])])
     []
   = Inr (''#set( $array = [] )\<newline>#foreach( $item in $array )\<newline>''
          @ ''  #set( $foo = 15 )\<newline>#end'')"
  by code_simp

lemma method_call_test:
  "transpile ''\<newline>''
     (Program None
        [VariableDeclaration None
           [VariableDeclarator None (Identifier None ''value0'')
              (Some (CallExpression None
                       (MemberExpression None (Identifier None ''foo'') (Identifier None ''bar''))
                       []))],
         VariableDeclaration None
           [VariableDeclarator None (Identifier None ''value2'')
              (Some (MemberExpression None
                       (CallExpression None
                          (MemberExpression None
                             (CallExpression None
                                (MemberExpression None (Identifier None ''foo'')
                                   (Identifier None ''bar''))
                                [])
                             (Identifier None ''baz''))
                          [])
                       (Identifier None ''abc'')))],
         VariableDeclaration None
           [VariableDeclarator None (Identifier None ''value3'')
              (Some (CallExpression None
                       (MemberExpression None (Identifier None ''foo'') (Identifier None ''bar''))
                       [Literal None (LNumber 3), Literal None (LBoolean True),
                        Literal None (LString ''str''), Identifier None ''value0'',
                        BinaryExpression None ''+'' (Literal None (LNumber 1))
                          (Identifier None ''value0'')]))]])
     []
   = Inr (''#set( $value0 = $foo.bar() )\<newline>''
          @ ''#set( $value2 = $foo.bar().baz().abc )\<newline>''
          @ ''#set( $value3 = $foo.bar(3, true, '' @ quoted ''str''
          @ '', $value0, 1 + $value0) )\<newline>'')"
  by code_simp

lemma array_and_object_expression_tests:
  "transpile ''\<newline>''
     (Program None
        [VariableDeclaration None
           [VariableDeclarator None (Identifier None ''arr0'') (Some (ArrayExpression None []))],
         VariableDeclaration None
           [VariableDeclarator None (Identifier None ''arr1'')
              (Some (ArrayExpression None
                       [Some (Literal None (LNumber 1)), Some (Literal None (LString ''two'')),
                        Some (Identifier None ''arr0''), Some (Literal None (LBoolean False)),
                        Some (BinaryExpression None ''+'' (Literal None (LNumber 1))
                                (Identifier None ''arr0''))]))],
         VariableDeclaration None
           [VariableDeclarator None (Identifier None ''obj1'')
              (Some (ObjectExpression None
                       [Property None False (Identifier None ''p0'') False ''init''
                          (Literal None (LNumber 1)),
                        Property None False (Identifier None ''p2'') False ''init''
                          (Identifier None ''arr0'')]))]])
     []
   = Inr (''#set( $arr0 = [] )\<newline>''
          @ ''#set( $arr1 = [1, '' @ quoted ''two'' @ '', $arr0, false, 1 + $arr0] )\<newline>''
          @ ''#set( $obj1 = {'' @ quoted ''p0'' @ '': 1, '' @ quoted ''p2'' @ '': $arr0} )\<newline>'')"
  by code_simp

lemma rejection_tests:
  "transpile ''\<newline>''
     (Program None
        [VariableDeclaration (Some (2, 8))
           [VariableDeclarator (Some (2, 14)) (Identifier (Some (2, 14)) ''arr2'')
              (Some (ArrayExpression (Some (2, 21))
                       [Some (Literal None (LNumber 1)), None, Some (Literal None (LNumber 2))]))]])
     []
   = Inl (Error ''Line 2, column 22: array holes are not supported'')"
  "transpile ''\<newline>''
     (Program None
        [ExpressionStatement (Some (2, 8))
           (CallExpression (Some (2, 8)) (Identifier (Some (2, 8)) ''foo'') [])])
     []
   = Inl (Error ''Line 2, column 9: non-method functions are not supported: foo'')"
  "transpile ''\<newline>''
     (Program None
        [VariableDeclaration (Some (2, 8))
           [VariableDeclarator (Some (2, 14)) (Identifier (Some (2, 14)) ''foo'')
              (Some (CallExpression (Some (2, 20)) (Identifier (Some (2, 20)) ''Symbol'') []))]])
     []
   = Inl (Error ''Line 2, column 21: symbol data types are not supported'')"
  "transpile ''\<newline>''
     (Program None
        [VariableDeclaration (Some (2, 8))
           [VariableDeclarator (Some (2, 14)) (Identifier (Some (2, 14)) ''foo'')
              (Some (BinaryExpression (Some (2, 20)) ''+'' (Identifier (Some (2, 20)) ''bar'')
                       (Identifier (Some (2, 26)) ''baz'')))]])
     []
   = Inl (Error (''Line 2, column 21: variable '' @ quoted ''bar'' @ '' was not declared''))"
  "transpile ''\<newline>''
     (Program None
        [ExpressionStatement (Some (2, 8))
           (AssignmentExpression (Some (2, 8)) ''='' (Identifier (Some (2, 8)) ''foo'')
              (Literal (Some (2, 14)) (LNumber 1)))])
     []
   = Inl (Error (''Line 2, column 9: variable '' @ quoted ''foo'' @ '' was not declared''))"
  "transpile ''\<newline>''
     (Program None
        [ExpressionStatement (Some (2, 8))
           (AssignmentExpression (Some (2, 8)) ''='' (Identifier (Some (2, 8)) ''global'')
              (Literal (Some (2, 17)) (LNumber 0)))])
     [''global'']
   = Inr ''#set( $global = 0 )\<newline>''"
  by code_simp+

end
